theory Spec2Isabelle
  imports Main "HOL-Library.Multiset"
begin

section \<open>The learning journal: data model\<close>

text \<open>
  The program is \<^verbatim>\<open>journal.py\<close>: an \<^verbatim>\<open>Entry\<close> class mapped onto the table
  \<^verbatim>\<open>entries\<close>, and six Pyramid views. The views are embedded as functions that pass the
  SQLAlchemy session explicitly and return either a value or the exception that leaves
  the view. What the program imports and does not define (the markdown renderer,
  \<^verbatim>\<open>strftime\<close>, the bcrypt check, the database's reading of an id given as text and
  its order among rows of equal \<^verbatim>\<open>created\<close>) is a field of the record \<open>deps\<close>:
  every theorem holds for all of them.
\<close>

type_synonym datetime = nat

text \<open>
  An \<^verbatim>\<open>Entry\<close> object. The attributes \<^verbatim>\<open>id\<close>, \<^verbatim>\<open>title\<close> and \<^verbatim>\<open>text\<close> can be
  \<^verbatim>\<open>None\<close> on the Python side: \<^verbatim>\<open>id\<close> until the row is inserted, the other two when
  the request has no such parameter. \<^verbatim>\<open>created\<close> is always given.
\<close>

record Entry =
  id' :: "int option"
  title :: "string option"
  text' :: "string option"
  created :: datetime

datatype exn =
    NoResultFound
  | MultipleResultsFound
  | IntegrityError
  | DataError
  | psycopg2_Error
  | AttributeError
  | KeyError
  | ValueError string

datatype 'a result = Returned 'a | Raised exn

datatype pyval = PyNone | PyBool bool | PyStr string | PyInt int

record request =
  params :: "string \<rightharpoonup> string"
  matchdict :: "string \<rightharpoonup> string"
  method' :: string
  authenticated_userid :: "string option"
  settings :: "string \<rightharpoonup> string"

text \<open>
  The database: the rows of \<^verbatim>\<open>entries\<close> in the order they were inserted, and the last
  value the sequence behind the auto-incremented \<^verbatim>\<open>id\<close> has handed out.
\<close>

record database =
  entries :: "Entry list"
  entries_id_seq :: int

text \<open>
  \<^verbatim>\<open>DBSession\<close> during one request: the database as the open transaction sees it, the
  objects passed to \<^verbatim>\<open>DBSession.add\<close> and not inserted yet, and the loaded objects
  whose attributes were assigned and not written back yet.
\<close>

record session =
  conn :: database
  new :: "Entry list"
  dirty :: "Entry list"

record deps =
  markdown :: "string \<Rightarrow> string list \<Rightarrow> string"
  strftime :: "datetime \<Rightarrow> string \<Rightarrow> string"
  check :: "string \<Rightarrow> string \<Rightarrow> bool"
  int4in :: "string \<Rightarrow> int option"
  tie :: "Entry \<Rightarrow> Entry \<Rightarrow> bool"

datatype response =
    HTTPForbidden
  | HTTPInternalServerError
  | HTTPFound string "string option"
  | Json "string \<rightharpoonup> pyval"
  | EntriesPage "Entry list"
  | EntryPage Entry
  | DetailPage "string \<rightharpoonup> pyval"
  | LoginPage string string
  | NoResponse

section \<open>Python truth values and dictionary reads\<close>

definition truthy :: "string option \<Rightarrow> bool" where
  "truthy v = (case v of None \<Rightarrow> False | Some s \<Rightarrow> s \<noteq> [])"

fun is_true :: "pyval \<Rightarrow> bool" where
  "is_true PyNone = False"
| "is_true (PyBool b) = b"
| "is_true (PyStr s) = (s \<noteq> [])"
| "is_true (PyInt i) = (i \<noteq> 0)"

definition get_default :: "(string \<rightharpoonup> string) \<Rightarrow> string \<Rightarrow> string \<Rightarrow> string" where
  "get_default d k v = (case d k of None \<Rightarrow> v | Some x \<Rightarrow> x)"

definition py_str :: "string option \<Rightarrow> pyval" where
  "py_str v = (case v of None \<Rightarrow> PyNone | Some s \<Rightarrow> PyStr s)"

definition py_int :: "int option \<Rightarrow> pyval" where
  "py_int v = (case v of None \<Rightarrow> PyNone | Some i \<Rightarrow> PyInt i)"

section \<open>The table and the session\<close>

text \<open>
  The columns, lines 31 to 36: \<^verbatim>\<open>title\<close> is \<^verbatim>\<open>Unicode(127), nullable=False\<close> and
  \<^verbatim>\<open>text\<close> is \<^verbatim>\<open>UnicodeText, nullable=False\<close>. A value that is too long for the
  column is a \<^verbatim>\<open>DataError\<close>, a \<^verbatim>\<open>NULL\<close> in either column an
  \<^verbatim>\<open>IntegrityError\<close>; both are SQLAlchemy's exceptions, which wrap the driver's and
  are no subclass of \<^verbatim>\<open>psycopg2.Error\<close>. (PostgreSQL cuts a title whose excess
  consists of blanks down to 127 characters instead of refusing it; the model refuses
  every title above 127, and every statement below about a stored title has the
  bound as a hypothesis.)
\<close>

definition column_error :: "Entry \<Rightarrow> exn option" where
  "column_error e =
     (case title e of
        None \<Rightarrow> Some IntegrityError
      | Some t \<Rightarrow>
          if 127 < length t then Some DataError
          else (case text' e of None \<Rightarrow> Some IntegrityError | Some x \<Rightarrow> None))"

text \<open>
  \<^verbatim>\<open>INSERT\<close> of the pending objects, in the order they were added. The sequence is
  advanced before the row is checked, and a sequence is not rolled back.
\<close>

fun insert_all :: "Entry list \<Rightarrow> database \<Rightarrow> unit result \<times> database" where
  "insert_all [] d = (Returned (), d)"
| "insert_all (e # es) d =
     (let k = entries_id_seq d + 1; d1 = d\<lparr>entries_id_seq := k\<rparr>
      in case column_error e of
           Some x \<Rightarrow> (Raised x, d1)
         | None \<Rightarrow> insert_all es (d1\<lparr>entries := entries d1 @ [e\<lparr>id' := Some k\<rparr>]\<rparr>))"

text \<open>
  \<^verbatim>\<open>UPDATE entries SET title=.., text=.. WHERE id = ..\<close> for each modified object:
  only the two assigned columns are written.
\<close>

fun update_all :: "Entry list \<Rightarrow> database \<Rightarrow> unit result \<times> database" where
  "update_all [] d = (Returned (), d)"
| "update_all (e # es) d =
     (case column_error e of
        Some x \<Rightarrow> (Raised x, d)
      | None \<Rightarrow>
          update_all es
            (d\<lparr>entries :=
                 map (\<lambda>r. if id' r = id' e then r\<lparr>title := title e, text' := text' e\<rparr> else r)
                   (entries d)\<rparr>))"

definition flush :: "session \<Rightarrow> unit result \<times> session" where
  "flush s =
     (case insert_all (new s) (conn s) of
        (Raised x, d) \<Rightarrow> (Raised x, s\<lparr>conn := d\<rparr>)
      | (Returned u, d) \<Rightarrow>
          (case update_all (dirty s) d of
             (Raised x, d') \<Rightarrow> (Raised x, s\<lparr>conn := d'\<rparr>)
           | (Returned u', d') \<Rightarrow> (Returned (), \<lparr>conn = d', new = [], dirty = []\<rparr>)))"

text \<open>
  \<^verbatim>\<open>order_by(cls.created.desc())\<close>. SQL leaves the order of rows with equal
  \<^verbatim>\<open>created\<close> open; \<open>tie c a b\<close> says whether the database puts \<open>a\<close> before \<open>b\<close>
  then.
\<close>

definition before :: "deps \<Rightarrow> Entry \<Rightarrow> Entry \<Rightarrow> bool" where
  "before c a b = (created b < created a \<or> (created a = created b \<and> tie c a b))"

fun insert_desc :: "deps \<Rightarrow> Entry \<Rightarrow> Entry list \<Rightarrow> Entry list" where
  "insert_desc c x [] = [x]"
| "insert_desc c x (y # ys) =
     (if before c x y then x # y # ys else y # insert_desc c x ys)"

definition order_by_created_desc :: "deps \<Rightarrow> Entry list \<Rightarrow> Entry list" where
  "order_by_created_desc c rows = foldr (insert_desc c) rows []"

text \<open>\<^verbatim>\<open>Query.one()\<close> and \<^verbatim>\<open>Query.first()\<close>.\<close>

fun one :: "'a list \<Rightarrow> 'a result" where
  "one [] = Raised NoResultFound"
| "one [x] = Returned x"
| "one (x # y # zs) = Raised MultipleResultsFound"

fun first :: "'a list \<Rightarrow> 'a option" where
  "first [] = None"
| "first (x # xs) = Some x"

section \<open>The class Entry\<close>

text \<open>
  A query flushes the session first (\<^verbatim>\<open>sessionmaker\<close>'s default
  \<^verbatim>\<open>autoflush=True\<close>), so the \<^verbatim>\<open>INSERT\<close> of an added object happens at the next
  query, not at \<^verbatim>\<open>DBSession.add\<close>.
\<close>

definition Entry_all :: "deps \<Rightarrow> session \<Rightarrow> Entry list result \<times> session" where
  "Entry_all c s =
     (case flush s of
        (Raised x, s1) \<Rightarrow> (Raised x, s1)
      | (Returned u, s1) \<Rightarrow> (Returned (order_by_created_desc c (entries (conn s1))), s1))"

text \<open>
  \<^verbatim>\<open>filter(cls.id == id)\<close> with the id as the request has it: \<^verbatim>\<open>None\<close> compiles to
  \<^verbatim>\<open>id IS NULL\<close>; a string is read by the database as an integer (\<open>int4in\<close>), which
  fails with a \<^verbatim>\<open>DataError\<close> when it is none.
\<close>

definition Entry_by_id :: "deps \<Rightarrow> string option \<Rightarrow> session \<Rightarrow> Entry result \<times> session" where
  "Entry_by_id c ident s =
     (case flush s of
        (Raised x, s1) \<Rightarrow> (Raised x, s1)
      | (Returned u, s1) \<Rightarrow>
          (case ident of
             None \<Rightarrow> (one (filter (\<lambda>r. id' r = None) (entries (conn s1))), s1)
           | Some str \<Rightarrow>
               (case int4in c str of
                  None \<Rightarrow> (Raised DataError, s1)
                | Some k \<Rightarrow> (one (filter (\<lambda>r. id' r = Some k) (entries (conn s1))), s1))))"

definition Entry_from_request :: "datetime \<Rightarrow> request \<Rightarrow> session \<Rightarrow> unit result \<times> session" where
  "Entry_from_request utcnow request s =
     (let title_v = params request ''title'';
          text_v = params request ''text'';
          created_v = utcnow;
          new_entry = \<lparr>id' = None, title = title_v, text' = text_v, created = created_v\<rparr>
      in (Returned (), s\<lparr>new := new s @ [new_entry]\<rparr>))"

definition Entry_desc_new :: "deps \<Rightarrow> session \<Rightarrow> Entry option result \<times> session" where
  "Entry_desc_new c s =
     (case flush s of
        (Raised x, s1) \<Rightarrow> (Raised x, s1)
      | (Returned u, s1) \<Rightarrow>
          (Returned (first (order_by_created_desc c (entries (conn s1)))), s1))"

definition render_markdown :: "deps \<Rightarrow> Entry \<Rightarrow> string result" where
  "render_markdown c self =
     (case text' self of
        None \<Rightarrow> Raised AttributeError
      | Some t \<Rightarrow> Returned (markdown c t [''codehilite'', ''fenced_code'']))"

definition json_detail :: "deps \<Rightarrow> Entry \<Rightarrow> (string \<rightharpoonup> pyval) result" where
  "json_detail c self =
     (case render_markdown c self of
        Raised x \<Rightarrow> Raised x
      | Returned html \<Rightarrow>
          Returned [''title'' \<mapsto> py_str (title self),
                    ''text'' \<mapsto> PyStr html,
                    ''created'' \<mapsto> PyStr (strftime c (created self) ''%b %d, %Y''),
                    ''id'' \<mapsto> py_int (id' self)])"

definition json_edit :: "deps \<Rightarrow> Entry \<Rightarrow> (string \<rightharpoonup> pyval)" where
  "json_edit c self =
     [''title'' \<mapsto> py_str (title self),
      ''text'' \<mapsto> py_str (text' self),
      ''created'' \<mapsto> PyStr (strftime c (created self) ''%b %d, %Y''),
      ''id'' \<mapsto> py_int (id' self)]"

text \<open>
  \<^verbatim>\<open>editing\<close> assigns two attributes of a loaded object; the assignment is what
  makes the session write the object back at the next flush.
\<close>

definition editing :: "Entry \<Rightarrow> request \<Rightarrow> session \<Rightarrow> Entry \<times> session" where
  "editing self request s =
     (let self1 = self\<lparr>title := params request ''title''\<rparr>;
          self2 = self1\<lparr>text' := params request ''text''\<rparr>
      in (self2, s\<lparr>dirty := dirty s @ [self2]\<rparr>))"

section \<open>The views\<close>

definition add_entry :: "deps \<Rightarrow> datetime \<Rightarrow> request \<Rightarrow> session \<Rightarrow> response result \<times> session" where
  "add_entry c utcnow request s =
     (if truthy (authenticated_userid request) then
        if method' request = ''POST'' then
          (case Entry_from_request utcnow request s of
             (Raised x, s1) \<Rightarrow>
               if x = psycopg2_Error then (Returned HTTPInternalServerError, s1)
               else (Raised x, s1)
           | (Returned u, s1) \<Rightarrow>
               (case Entry_desc_new c s1 of
                  (Raised x, s2) \<Rightarrow> (Raised x, s2)
                | (Returned None, s2) \<Rightarrow> (Raised AttributeError, s2)
                | (Returned (Some entry), s2) \<Rightarrow>
                    (case json_detail c entry of
                       Raised x \<Rightarrow> (Raised x, s2)
                     | Returned j \<Rightarrow> (Returned (Json j), s2))))
        else (Returned NoResponse, s)
      else (Returned HTTPForbidden, s))"

definition read_entries :: "deps \<Rightarrow> request \<Rightarrow> session \<Rightarrow> response result \<times> session" where
  "read_entries c request s =
     (case Entry_all c s of
        (Raised x, s1) \<Rightarrow> (Raised x, s1)
      | (Returned es, s1) \<Rightarrow> (Returned (EntriesPage es), s1))"

definition detail_entry :: "deps \<Rightarrow> request \<Rightarrow> session \<Rightarrow> response result \<times> session" where
  "detail_entry c request s =
     (case matchdict request ''id'' of
        None \<Rightarrow> (Raised KeyError, s)
      | Some i \<Rightarrow>
          (case Entry_by_id c (Some i) s of
             (Raised x, s1) \<Rightarrow> (Raised x, s1)
           | (Returned entry, s1) \<Rightarrow> (Returned (EntryPage entry), s1)))"

text \<open>
  Modelled from the spec: \<^verbatim>\<open>templates/detail.jinja2\<close>, the renderer of
  \<^verbatim>\<open>detail_entry\<close>, is not among the sources. The spec has \<^verbatim>\<open>view_entry\<close> return the
  entry in the detail representation \<^verbatim>\<open>{id, title, created (formatted date string),
  text (HTML)}\<close>, where rendering expands the raw text to HTML via the markdown
  renderer and title and created are the entry's own. The source agrees on how the
  text gets there: the docstring of \<^verbatim>\<open>render_markdown\<close> is "Used to put markdown on
  text within my template". The date format is the one of the two representations in
  the source.
\<close>

definition detail_jinja2 :: "deps \<Rightarrow> Entry \<Rightarrow> (string \<rightharpoonup> pyval) result" where
  "detail_jinja2 c entry =
     (case render_markdown c entry of
        Raised x \<Rightarrow> Raised x
      | Returned html \<Rightarrow>
          Returned [''id'' \<mapsto> py_int (id' entry),
                    ''title'' \<mapsto> py_str (title entry),
                    ''created'' \<mapsto> PyStr (strftime c (created entry) ''%b %d, %Y''),
                    ''text'' \<mapsto> PyStr html])"

text \<open>
  Modelled from the spec: \<^verbatim>\<open>view_entry\<close> is \<^verbatim>\<open>detail_entry\<close> followed by its
  renderer, the missing template above. Pyramid renders the dictionary a view returns
  and passes a response object or an exception through.
\<close>

definition view_entry :: "deps \<Rightarrow> request \<Rightarrow> session \<Rightarrow> response result \<times> session" where
  "view_entry c request s =
     (case detail_entry c request s of
        (Returned (EntryPage entry), s1) \<Rightarrow>
          (case detail_jinja2 c entry of
             Raised x \<Rightarrow> (Raised x, s1)
           | Returned page \<Rightarrow> (Returned (DetailPage page), s1))
      | (r, s1) \<Rightarrow> (r, s1))"

text \<open>
  In \<^verbatim>\<open>edit\<close> the call of \<^verbatim>\<open>editing\<close> stands in a \<^verbatim>\<open>try\<close> that catches
  \<^verbatim>\<open>psycopg2.Error\<close>; assigning two attributes raises nothing, so the handler has no
  branch here.
\<close>

definition edit :: "deps \<Rightarrow> request \<Rightarrow> session \<Rightarrow> response result \<times> session" where
  "edit c request s =
     (if truthy (authenticated_userid request) then
        (case Entry_by_id c (params request ''id'') s of
           (Raised x, s1) \<Rightarrow> (Raised x, s1)
         | (Returned entry, s1) \<Rightarrow>
             if method' request = ''GET'' then (Returned (Json (json_edit c entry)), s1)
             else if method' request = ''POST'' then
               (case editing entry request s1 of
                  (entry1, s2) \<Rightarrow>
                    (case json_detail c entry1 of
                       Raised x \<Rightarrow> (Raised x, s2)
                     | Returned j \<Rightarrow> (Returned (Json j), s2)))
             else (Returned NoResponse, s1))
      else (Returned HTTPForbidden, s))"

definition do_login :: "deps \<Rightarrow> request \<Rightarrow> pyval result" where
  "do_login c request =
     (let username = params request ''username'';
          password = params request ''password''
      in if \<not> (truthy username \<and> truthy password) then
           Raised (ValueError ''both username and password are required'')
         else if the username = get_default (settings request) ''auth.username'' '''' then
           (let hashed = get_default (settings request) ''auth.password'' ''''
            in Returned (PyBool (check c hashed (the password))))
         else Returned PyNone)"

definition login :: "deps \<Rightarrow> request \<Rightarrow> response result" where
  "login c request =
     (let username = get_default (params request) ''username'' '''';
          fallback = (\<lambda>error. Returned (LoginPage error username))
      in if method' request = ''POST'' then
           (case do_login c request of
              Raised (ValueError msg) \<Rightarrow> fallback msg
            | Raised x \<Rightarrow> Raised x
            | Returned authenticated \<Rightarrow>
                if is_true authenticated then Returned (HTTPFound ''home'' (Some username))
                else fallback ''Login Failed'')
         else fallback '''')"

section \<open>One request\<close>

text \<open>
  \<^verbatim>\<open>pyramid_tm\<close> runs a view inside a transaction: a view that raises aborts it, a view
  that returns commits it, and the commit flushes what the session still holds; a
  flush that fails aborts as well and the exception leaves the request. After an abort
  the table is as it was before the request.
\<close>

definition start :: "database \<Rightarrow> session" where
  "start d = \<lparr>conn = d, new = [], dirty = []\<rparr>"

definition abort :: "database \<Rightarrow> session \<Rightarrow> database" where
  "abort d s = d\<lparr>entries_id_seq := entries_id_seq (conn s)\<rparr>"

definition pyramid_tm ::
  "(request \<Rightarrow> session \<Rightarrow> response result \<times> session) \<Rightarrow> request \<Rightarrow> database
     \<Rightarrow> response result \<times> database" where
  "pyramid_tm view request d =
     (case view request (start d) of
        (Raised x, s) \<Rightarrow> (Raised x, abort d s)
      | (Returned r, s) \<Rightarrow>
          (case flush s of
             (Raised x, s1) \<Rightarrow> (Raised x, abort d s1)
           | (Returned u, s1) \<Rightarrow> (Returned r, conn s1)))"

text \<open>
  The status line the client sees: an exception no view catches leaves the
  application and the server answers 500; a dictionary is rendered with status 200.
\<close>

fun http_status :: "response result \<Rightarrow> nat" where
  "http_status (Raised x) = 500"
| "http_status (Returned HTTPForbidden) = 403"
| "http_status (Returned HTTPInternalServerError) = 500"
| "http_status (Returned (HTTPFound location userid)) = 302"
| "http_status (Returned r) = 200"

text \<open>One key of the dictionary a response carries.\<close>

fun response_field :: "response result \<Rightarrow> string \<Rightarrow> pyval option" where
  "response_field (Returned (Json j)) key = j key"
| "response_field (Returned (DetailPage page)) key = page key"
| "response_field r key = None"

section \<open>Sequences of requests, and the states the program reaches\<close>

text \<open>Any number of requests to \<^verbatim>\<open>/edit\<close>, one after the other.\<close>

fun run_edits :: "deps \<Rightarrow> request list \<Rightarrow> database \<Rightarrow> database" where
  "run_edits c [] d = d"
| "run_edits c (request # rest) d = run_edits c rest (snd (pyramid_tm (edit c) request d))"

text \<open>Any sequence of requests to the four views that touch the table.\<close>

datatype call = Add datetime request | Edit request | Home request | Detail request

fun serve :: "deps \<Rightarrow> call \<Rightarrow> database \<Rightarrow> response result \<times> database" where
  "serve c (Add utcnow request) d = pyramid_tm (add_entry c utcnow) request d"
| "serve c (Edit request) d = pyramid_tm (edit c) request d"
| "serve c (Home request) d = pyramid_tm (read_entries c) request d"
| "serve c (Detail request) d = pyramid_tm (detail_entry c) request d"

fun run :: "deps \<Rightarrow> call list \<Rightarrow> database \<Rightarrow> database" where
  "run c [] d = d"
| "run c (x # xs) d = run c xs (snd (serve c x d))"

text \<open>
  What the table's constraints keep true of a database: every row passes the column
  checks, has an id the sequence has handed out, and no two rows share an id (the
  primary key).
\<close>

definition wf_db :: "database \<Rightarrow> bool" where
  "wf_db d =
     ((\<forall>r \<in> set (entries d).
         column_error r = None \<and> (\<exists>k. id' r = Some k \<and> k \<le> entries_id_seq d))
      \<and> distinct (map id' (entries d)))"

definition empty_db :: database where
  "empty_db = \<lparr>entries = [], entries_id_seq = 0\<rparr>"

text \<open>The database after the \<^verbatim>\<open>INSERT\<close> of one object that passes the column checks.\<close>

definition inserted :: "database \<Rightarrow> Entry \<Rightarrow> database" where
  "inserted d e =
     \<lparr>entries = entries d @ [e\<lparr>id' := Some (entries_id_seq d + 1)\<rparr>],
      entries_id_seq = entries_id_seq d + 1\<rparr>"

text \<open>The object \<^verbatim>\<open>Entry.from_request\<close> builds and adds to the session.\<close>

definition from_params :: "datetime \<Rightarrow> request \<Rightarrow> Entry" where
  "from_params utcnow request =
     \<lparr>id' = None, title = params request ''title'', text' = params request ''text'',
      created = utcnow\<rparr>"

section \<open>Sample inputs\<close>

text \<open>
  Concrete collaborators, requests and databases, on which the theorems below are
  instantiated. \<open>sample_deps\<close> stands in for the libraries with the simplest
  functions of the right type; nothing is proved from what they compute.
\<close>

fun decimal :: "string \<Rightarrow> int \<Rightarrow> int option" where
  "decimal [] acc = Some acc"
| "decimal (ch # cs) acc =
     (if 48 \<le> (of_char ch :: nat) \<and> (of_char ch :: nat) \<le> 57
      then decimal cs (10 * acc + int (of_char ch) - 48) else None)"

definition sample_deps :: deps where
  "sample_deps =
     \<lparr>markdown = (\<lambda>source extensions. ''<p>'' @ source @ ''</p>''),
      strftime = (\<lambda>d format. format),
      check = (\<lambda>hashed password. hashed = ''bcrypt:'' @ password),
      int4in = (\<lambda>s. if s = [] then None else decimal s 0),
      tie = (\<lambda>a b. False)\<rparr>"

definition sample_settings :: "string \<rightharpoonup> string" where
  "sample_settings = [''auth.username'' \<mapsto> ''admin'', ''auth.password'' \<mapsto> ''bcrypt:secret'']"

definition sample_request ::
  "string \<Rightarrow> string option \<Rightarrow> (string \<times> string) list \<Rightarrow> (string \<times> string) list \<Rightarrow> request" where
  "sample_request m userid ps md =
     \<lparr>params = map_of ps, matchdict = map_of md, method' = m,
      authenticated_userid = userid, settings = sample_settings\<rparr>"

definition hello :: "(string \<times> string) list" where
  "hello = [(''title'', ''Hello there''), (''text'', ''##This is a post'')]"

definition sample_db :: database where
  "sample_db =
     \<lparr>entries =
        [\<lparr>id' = Some 1, title = Some ''first'', text' = Some ''*one*'', created = 10\<rparr>,
         \<lparr>id' = Some 2, title = Some ''second'', text' = Some ''two'', created = 20\<rparr>],
      entries_id_seq = 2\<rparr>"

text \<open>The sample collaborators with a database that lists the older of two rows of equal
  \<^verbatim>\<open>created\<close> first.\<close>

definition oldest_first :: deps where
  "oldest_first = sample_deps\<lparr>tie := (\<lambda>a b. True)\<rparr>"

definition admin :: "string option" where
  "admin = Some ''admin''"

definition sample_entry :: Entry where
  "sample_entry = \<lparr>id' = Some 1, title = Some ''first'', text' = Some ''*one*'', created = 10\<rparr>"

section \<open>The session and the transaction\<close>

lemma flush_start: "flush (start d) = (Returned (), start d)"
  by (simp add: flush_def start_def)

lemma pyramid_tm_start:
  "view request (start d) = (Returned r, start d) \<Longrightarrow> pyramid_tm view request d = (Returned r, d)"
  by (simp add: pyramid_tm_def flush_start) (simp add: start_def)

lemma pyramid_tm_raised:
  "view request (start d) = (Raised x, start d) \<Longrightarrow> pyramid_tm view request d = (Raised x, d)"
  by (simp add: pyramid_tm_def abort_def start_def)

lemma conn_start: "conn (start d) = d"
  by (simp add: start_def)

lemma dirty_start: "dirty (start d) = []"
  by (simp add: start_def)

section \<open>Ordering by creation time\<close>

lemma set_insert_desc: "set (insert_desc c x ys) = insert x (set ys)"
  by (induction ys) auto

lemma mset_insert_desc: "mset (insert_desc c x ys) = add_mset x (mset ys)"
  by (induction ys) auto

lemma sorted_insert_desc:
  "sorted_wrt (\<lambda>a b. created b \<le> created a) ys \<Longrightarrow>
   sorted_wrt (\<lambda>a b. created b \<le> created a) (insert_desc c x ys)"
  by (induction ys) (auto simp: set_insert_desc before_def)

lemma mset_order_by: "mset (order_by_created_desc c rows) = mset rows"
  by (induction rows) (auto simp: order_by_created_desc_def mset_insert_desc)

lemma set_order_by: "set (order_by_created_desc c rows) = set rows"
  by (induction rows) (auto simp: order_by_created_desc_def set_insert_desc)

lemma sorted_order_by:
  "sorted_wrt (\<lambda>a b. created b \<le> created a) (order_by_created_desc c rows)"
  by (induction rows) (auto simp: order_by_created_desc_def sorted_insert_desc)

lemma hd_greatest:
  "sorted_wrt (\<lambda>a b. created b \<le> created a) xs \<Longrightarrow> e \<in> set xs \<Longrightarrow> created e \<le> created (hd xs)"
  by (cases xs) auto

lemma first_hd: "xs \<noteq> [] \<Longrightarrow> first xs = Some (hd xs)"
  by (cases xs) auto

lemma order_by_eq_Nil: "order_by_created_desc c rows = [] \<longleftrightarrow> rows = []"
  using set_order_by [of c rows] by (metis set_empty)

lemma order_snoc: "order_by_created_desc c (rows @ [e]) = foldr (insert_desc c) rows [e]"
  by (simp add: order_by_created_desc_def)

lemma hd_insert_desc:
  "hd (insert_desc c x ys) = (if ys = [] \<or> before c x (hd ys) then x else hd ys)"
  by (cases ys) auto

lemma foldr_insert_desc_ne: "foldr (insert_desc c) rows [e] \<noteq> []"
  by (induction rows) (auto simp: insert_desc.simps split: list.splits if_splits elim: insert_desc.elims)

lemma hd_newest:
  "\<forall>r \<in> set rows. created r < created e \<Longrightarrow> hd (foldr (insert_desc c) rows [e]) = e"
  by (induction rows) (auto simp: hd_insert_desc foldr_insert_desc_ne before_def)

lemma hd_older:
  assumes "tie c = (\<lambda>a b. True)"
  shows "\<exists>r \<in> set rows. created e \<le> created r \<Longrightarrow> hd (foldr (insert_desc c) rows [e]) \<in> set rows"
proof (induction rows)
  case Nil
  then show ?case by simp
next
  case (Cons r rs)
  let ?h = "hd (foldr (insert_desc c) rs [e])"
  show ?case
  proof (cases "before c r ?h")
    case True
    then show ?thesis by (simp add: hd_insert_desc)
  next
    case False
    then have older: "created r < created ?h"
      using assms by (auto simp: before_def)
    have "\<exists>r' \<in> set rs. created e \<le> created r'"
    proof (rule ccontr)
      assume "\<not> (\<exists>r' \<in> set rs. created e \<le> created r')"
      then have "\<forall>r' \<in> set rs. created r' < created e" by auto
      then have "?h = e" by (rule hd_newest)
      with older Cons.prems \<open>\<not> (\<exists>r' \<in> set rs. created e \<le> created r')\<close> show False by auto
    qed
    then have "?h \<in> set rs" by (rule Cons.IH)
    with False show ?thesis by (simp add: hd_insert_desc foldr_insert_desc_ne)
  qed
qed

section \<open>Inserting, looking up and updating rows\<close>

lemma column_error_None:
  "column_error e = None \<longleftrightarrow> (\<exists>t x. title e = Some t \<and> length t \<le> 127 \<and> text' e = Some x)"
  by (auto simp: column_error_def split: option.splits)

lemma column_error_cases:
  "column_error e = None \<or> column_error e = Some IntegrityError \<or> column_error e = Some DataError"
  by (auto simp: column_error_def split: option.splits)

lemma flush_new_ok:
  "column_error e = None \<Longrightarrow>
   flush ((start d)\<lparr>new := [e]\<rparr>) = (Returned (), start (inserted d e))"
  by (simp add: flush_def start_def inserted_def Let_def)

lemma flush_new_fails:
  "column_error e = Some x \<Longrightarrow>
   flush ((start d)\<lparr>new := [e]\<rparr>)
     = (Raised x, (start d)\<lparr>new := [e], conn := d\<lparr>entries_id_seq := entries_id_seq d + 1\<rparr>\<rparr>)"
  by (simp add: flush_def start_def Let_def)

lemma from_request_start:
  "Entry_from_request utcnow request (start d)
     = (Returned (), (start d)\<lparr>new := [from_params utcnow request]\<rparr>)"
  by (simp add: Entry_from_request_def from_params_def Let_def start_def)

lemma add_entry_ok:
  assumes "truthy (authenticated_userid request)" and "method' request = ''POST''"
    and "column_error (from_params utcnow request) = None"
  shows "add_entry c utcnow request (start d) =
     (case json_detail c (hd (order_by_created_desc c (entries (inserted d (from_params utcnow request))))) of
        Raised x \<Rightarrow> (Raised x, start (inserted d (from_params utcnow request)))
      | Returned j \<Rightarrow> (Returned (Json j), start (inserted d (from_params utcnow request))))"
proof -
  have ne: "order_by_created_desc c (entries (inserted d (from_params utcnow request))) \<noteq> []"
    by (simp add: order_by_eq_Nil inserted_def)
  show ?thesis
    using assms
    by (simp add: add_entry_def from_request_start Entry_desc_new_def flush_new_ok conn_start first_hd [OF ne]
        split: result.splits)
qed

lemma add_entry_fails:
  assumes "truthy (authenticated_userid request)" and "method' request = ''POST''"
    and "column_error (from_params utcnow request) = Some x"
  shows "pyramid_tm (add_entry c utcnow) request d
     = (Raised x, d\<lparr>entries_id_seq := entries_id_seq d + 1\<rparr>)"
  using assms
  by (simp add: pyramid_tm_def add_entry_def from_request_start Entry_desc_new_def flush_new_fails abort_def)

lemma add_entry_refused:
  "\<not> truthy (authenticated_userid request) \<Longrightarrow>
     pyramid_tm (add_entry c utcnow) request d = (Returned HTTPForbidden, d)"
  "truthy (authenticated_userid request) \<Longrightarrow> method' request \<noteq> ''POST'' \<Longrightarrow>
     pyramid_tm (add_entry c utcnow) request d = (Returned NoResponse, d)"
  by (simp_all add: pyramid_tm_start add_entry_def)

lemma by_id_start:
  "Entry_by_id c (Some i) (start d) =
     (case int4in c i of
        None \<Rightarrow> (Raised DataError, start d)
      | Some k \<Rightarrow> (one (filter (\<lambda>r. id' r = Some k) (entries d)), start d))"
  by (simp add: Entry_by_id_def flush_start conn_start split: option.splits)

lemma by_id_session: "\<exists>r. Entry_by_id c ident (start d) = (r, start d)"
  by (simp add: Entry_by_id_def flush_start split: option.splits)

lemma filter_unique:
  "distinct (map f xs) \<Longrightarrow> e \<in> set xs \<Longrightarrow> filter (\<lambda>r. f r = f e) xs = [e]"
proof (induction xs)
  case Nil
  then show ?case by simp
next
  case (Cons a xs)
  show ?case
  proof (cases "a = e")
    case True
    with Cons.prems have "f e \<notin> f ` set xs" by simp
    then have "\<forall>r \<in> set xs. f r \<noteq> f e" by (metis imageI)
    then have "filter (\<lambda>r. f r = f e) xs = []" by (simp add: filter_empty_conv)
    with True show ?thesis by simp
  next
    case False
    with Cons.prems have "e \<in> set xs" and "f a \<noteq> f e" by auto
    with Cons show ?thesis by simp
  qed
qed

lemma filter_absent:
  "Some k \<notin> id' ` set rows \<Longrightarrow> filter (\<lambda>r. id' r = Some k) rows = []"
  by (force simp: filter_empty_conv)

lemma by_id_found:
  assumes "wf_db d" and "e \<in> set (entries d)" and "id' e = Some k" and "int4in c i = Some k"
  shows "Entry_by_id c (Some i) (start d) = (Returned e, start d)"
proof -
  have "distinct (map id' (entries d))" using assms(1) by (simp add: wf_db_def)
  from filter_unique [OF this assms(2)] show ?thesis
    using assms(3,4) by (simp add: by_id_start)
qed

lemma by_id_absent:
  assumes "int4in c i = Some k" and "Some k \<notin> id' ` set (entries d)"
  shows "Entry_by_id c (Some i) (start d) = (Raised NoResultFound, start d)"
  using assms by (simp add: by_id_start filter_absent)

lemma detail_found:
  assumes "wf_db d" and "e \<in> set (entries d)" and "id' e = Some k" and "int4in c i = Some k"
    and "matchdict request ''id'' = Some i"
  shows "pyramid_tm (detail_entry c) request d = (Returned (EntryPage e), d)"
  using assms(5) by (simp add: pyramid_tm_start detail_entry_def by_id_found [OF assms(1-4)])

lemma json_detail_fields:
  assumes "json_detail c e = Returned j"
  shows "j ''id'' = Some (py_int (id' e)) \<and> j ''title'' = Some (py_str (title e))
       \<and> j ''created'' = Some (PyStr (strftime c (created e) ''%b %d, %Y''))
       \<and> (\<exists>x. text' e = Some x \<and> j ''text'' = Some (PyStr (markdown c x [''codehilite'', ''fenced_code''])))"
  using assms by (auto simp: json_detail_def render_markdown_def split: option.splits)

lemma flush_dirty:
  "flush ((start d)\<lparr>dirty := [e]\<rparr>) =
     (case column_error e of
        Some x \<Rightarrow> (Raised x, (start d)\<lparr>dirty := [e]\<rparr>)
      | None \<Rightarrow>
          (Returned (),
           start (d\<lparr>entries :=
             map (\<lambda>r. if id' r = id' e then r\<lparr>title := title e, text' := text' e\<rparr> else r)
               (entries d)\<rparr>)))"
  by (simp add: flush_def start_def split: option.splits)

lemma edit_session:
  "(\<exists>r. edit c request (start d) = (r, start d))
   \<or> (\<exists>r e. edit c request (start d)
         = (r, (start d)\<lparr>dirty := [e\<lparr>title := params request ''title'', text' := params request ''text''\<rparr>]\<rparr>))"
proof -
  obtain r where r: "Entry_by_id c (params request ''id'') (start d) = (r, start d)"
    using by_id_session by blast
  show ?thesis
  proof (cases r)
    case (Raised x)
    with r show ?thesis by (simp add: edit_def)
  next
    case (Returned e)
    with r show ?thesis
      by (auto simp: edit_def editing_def Let_def dirty_start split: result.splits)
  qed
qed

lemma edit_rows:
  "list_all2 (\<lambda>r r'. r' = r \<or> r' = r\<lparr>title := params request ''title'', text' := params request ''text''\<rparr>)
     (entries d) (entries (snd (pyramid_tm (edit c) request d)))"
proof -
  let ?R = "\<lambda>r r'. r' = r \<or> r' = r\<lparr>title := params request ''title'', text' := params request ''text''\<rparr>"
  have same: "list_all2 ?R (entries d) (entries d)"
    by (simp add: list_all2_conv_all_nth)
  from edit_session [of c request d] show ?thesis
  proof
    assume "\<exists>r. edit c request (start d) = (r, start d)"
    then obtain r where "edit c request (start d) = (r, start d)" by blast
    then show ?thesis
      using same by (cases r) (simp_all add: pyramid_tm_def flush_start conn_start abort_def)
  next
    assume "\<exists>r e. edit c request (start d)
         = (r, (start d)\<lparr>dirty := [e\<lparr>title := params request ''title'', text' := params request ''text''\<rparr>]\<rparr>)"
    then obtain r e where *: "edit c request (start d)
         = (r, (start d)\<lparr>dirty := [e\<lparr>title := params request ''title'', text' := params request ''text''\<rparr>]\<rparr>)"
      by blast
    show ?thesis
    proof (cases r)
      case (Raised x)
      with * same show ?thesis by (simp add: pyramid_tm_def abort_def)
    next
      case (Returned v)
      with * same show ?thesis
        by (simp add: pyramid_tm_def flush_dirty abort_def conn_start list_all2_conv_all_nth
            split: option.splits)
    qed
  qed
qed

lemma edit_keys:
  "map (\<lambda>e. (id' e, created e)) (entries (snd (pyramid_tm (edit c) request d)))
     = map (\<lambda>e. (id' e, created e)) (entries d)"
proof -
  have "list_all2 (\<lambda>r r'. (id' r', created r') = (id' r, created r))
     (entries d) (entries (snd (pyramid_tm (edit c) request d)))"
    by (rule list_all2_mono [OF edit_rows]) auto
  then show ?thesis
    by (simp add: list_all2_conv_all_nth list_eq_iff_nth_eq)
qed

lemma run_edits_keys:
  "map (\<lambda>e. (id' e, created e)) (entries (run_edits c requests d))
     = map (\<lambda>e. (id' e, created e)) (entries d)"
  by (induction requests arbitrary: d) (simp_all add: edit_keys)

lemma read_entries_start:
  "read_entries c request (start d) = (Returned (EntriesPage (order_by_created_desc c (entries d))), start d)"
  by (simp add: read_entries_def Entry_all_def flush_start conn_start)

lemma sample_int4in: "int4in sample_deps ''1'' = Some 1" "int4in sample_deps ''7'' = Some 7"
  by (simp_all add: sample_deps_def)

section \<open>The constraints hold in every state the program reaches\<close>

lemma wf_empty: "wf_db empty_db"
  by (simp add: wf_db_def empty_db_def)

lemma wf_sample: "wf_db sample_db"
  by (simp add: wf_db_def sample_db_def column_error_def)

lemma wf_seq: "wf_db d \<Longrightarrow> wf_db (d\<lparr>entries_id_seq := entries_id_seq d + 1\<rparr>)"
  by (fastforce simp: wf_db_def)

lemma wf_inserted:
  assumes "wf_db d" and "column_error e = None"
  shows "wf_db (inserted d e)"
proof -
  have "column_error (e\<lparr>id' := Some (entries_id_seq d + 1)\<rparr>) = None"
    using assms(2) by (simp add: column_error_None)
  moreover have "Some (entries_id_seq d + 1) \<notin> id' ` set (entries d)"
    using assms(1) by (force simp: wf_db_def)
  ultimately show ?thesis
    using assms(1) by (fastforce simp: wf_db_def inserted_def)
qed

lemma wf_update:
  assumes "wf_db d" and "column_error e = None"
  shows "wf_db (d\<lparr>entries :=
     map (\<lambda>r. if id' r = id' e then r\<lparr>title := title e, text' := text' e\<rparr> else r) (entries d)\<rparr>)"
proof -
  let ?f = "\<lambda>r. if id' r = id' e then r\<lparr>title := title e, text' := text' e\<rparr> else r"
  have ids: "map id' (map ?f (entries d)) = map id' (entries d)"
    by (induction "entries d") auto
  have rows: "column_error r' = None \<and> (\<exists>k. id' r' = Some k \<and> k \<le> entries_id_seq d)"
    if "r' \<in> set (map ?f (entries d))" for r'
  proof -
    from that obtain r where r: "r \<in> set (entries d)" "r' = ?f r" by auto
    with assms(1) have old: "column_error r = None" "\<exists>k. id' r = Some k \<and> k \<le> entries_id_seq d"
      by (auto simp: wf_db_def)
    have "column_error (?f r) = None"
      using old(1) assms(2) by (simp add: column_error_None)
    moreover have "id' (?f r) = id' r" by simp
    ultimately show ?thesis using old(2) r(2) by simp
  qed
  have "distinct (map id' (map ?f (entries d)))"
    using assms(1) by (simp only: ids) (simp add: wf_db_def)
  with rows show ?thesis by (simp add: wf_db_def del: map_map)
qed

lemma add_entry_commits:
  assumes "wf_db d" and "truthy (authenticated_userid request)" and "method' request = ''POST''"
    and "column_error (from_params utcnow request) = None"
  shows "\<exists>j. pyramid_tm (add_entry c utcnow) request d
             = (Returned (Json j), inserted d (from_params utcnow request))
           \<and> json_detail c (hd (order_by_created_desc c
                 (entries (inserted d (from_params utcnow request))))) = Returned j"
proof -
  let ?d1 = "inserted d (from_params utcnow request)"
  let ?top = "hd (order_by_created_desc c (entries ?d1))"
  have "order_by_created_desc c (entries ?d1) \<noteq> []"
    by (simp add: order_by_eq_Nil inserted_def)
  then have "?top \<in> set (entries ?d1)"
    using set_order_by [of c "entries ?d1"] hd_in_set by blast
  moreover have "wf_db ?d1" by (rule wf_inserted [OF assms(1,4)])
  ultimately have "column_error ?top = None" by (simp add: wf_db_def)
  then obtain x where "text' ?top = Some x" by (auto simp: column_error_None)
  then obtain j where j: "json_detail c ?top = Returned j"
    by (simp add: json_detail_def render_markdown_def)
  then have "add_entry c utcnow request (start d) = (Returned (Json j), start ?d1)"
    by (simp add: add_entry_ok [OF assms(2-4)])
  then have "pyramid_tm (add_entry c utcnow) request d = (Returned (Json j), ?d1)"
    by (simp add: pyramid_tm_def flush_start conn_start)
  with j show ?thesis by blast
qed

lemma wf_add_entry:
  assumes "wf_db d"
  shows "wf_db (snd (pyramid_tm (add_entry c utcnow) request d))"
proof (cases "truthy (authenticated_userid request) \<and> method' request = ''POST''")
  case False
  then show ?thesis
    using assms add_entry_refused [where request = request and c = c and utcnow = utcnow and d = d]
    by (cases "truthy (authenticated_userid request)") auto
next
  case True
  show ?thesis
  proof (cases "column_error (from_params utcnow request)")
    case None
    from True add_entry_commits [OF assms _ _ None, where c = c] wf_inserted [OF assms None]
    show ?thesis by auto
  next
    case (Some x)
    from True add_entry_fails [OF _ _ Some, where c = c and d = d] wf_seq [OF assms]
    show ?thesis by auto
  qed
qed

lemma edit_db:
  "snd (pyramid_tm (edit c) request d) = d
   \<or> (\<exists>e. column_error e = None \<and> snd (pyramid_tm (edit c) request d)
         = d\<lparr>entries :=
             map (\<lambda>r. if id' r = id' e then r\<lparr>title := title e, text' := text' e\<rparr> else r) (entries d)\<rparr>)"
proof -
  from edit_session [of c request d] show ?thesis
  proof
    assume "\<exists>r. edit c request (start d) = (r, start d)"
    then obtain r where "edit c request (start d) = (r, start d)" by blast
    then show ?thesis
      by (cases r) (simp_all add: pyramid_tm_def flush_start conn_start abort_def)
  next
    assume "\<exists>r e. edit c request (start d)
         = (r, (start d)\<lparr>dirty := [e\<lparr>title := params request ''title'', text' := params request ''text''\<rparr>]\<rparr>)"
    then obtain r e where *: "edit c request (start d)
         = (r, (start d)\<lparr>dirty := [e\<lparr>title := params request ''title'', text' := params request ''text''\<rparr>]\<rparr>)"
      by blast
    let ?e = "e\<lparr>title := params request ''title'', text' := params request ''text''\<rparr>"
    show ?thesis
    proof (cases r)
      case (Raised x)
      with * show ?thesis by (simp add: pyramid_tm_def abort_def conn_start)
    next
      case (Returned v)
      show ?thesis
      proof (cases "column_error ?e")
        case None
        with * Returned have "snd (pyramid_tm (edit c) request d)
          = d\<lparr>entries := map (\<lambda>r. if id' r = id' ?e then r\<lparr>title := title ?e, text' := text' ?e\<rparr> else r) (entries d)\<rparr>"
          by (simp add: pyramid_tm_def flush_dirty conn_start)
        with None show ?thesis by blast
      next
        case (Some x)
        with * Returned show ?thesis
          by (simp add: pyramid_tm_def flush_dirty abort_def conn_start)
      qed
    qed
  qed
qed

lemma wf_edit:
  assumes "wf_db d"
  shows "wf_db (snd (pyramid_tm (edit c) request d))"
  using edit_db [of c request d] wf_update [OF assms] assms by auto

lemma detail_db: "snd (pyramid_tm (detail_entry c) request d) = d"
proof (cases "matchdict request ''id''")
  case None
  then show ?thesis by (simp add: pyramid_tm_def detail_entry_def abort_def conn_start)
next
  case (Some i)
  obtain r where "Entry_by_id c (Some i) (start d) = (r, start d)"
    using by_id_session by blast
  with Some show ?thesis
    by (cases r) (simp_all add: pyramid_tm_def detail_entry_def abort_def conn_start flush_start)
qed

lemma edit_get_ok:
  assumes "wf_db d" and "e \<in> set (entries d)" and "id' e = Some k" and "int4in c i = Some k"
    and "truthy (authenticated_userid request)" and "params request ''id'' = Some i"
    and "method' request = ''GET''"
  shows "pyramid_tm (edit c) request d = (Returned (Json (json_edit c e)), d)"
  using assms(5-7) by (simp add: pyramid_tm_start edit_def by_id_found [OF assms(1-4)])

lemma edit_post_ok:
  assumes "wf_db d" and "e \<in> set (entries d)" and "id' e = Some k" and "int4in c i = Some k"
    and "truthy (authenticated_userid request)" and "params request ''id'' = Some i"
    and "method' request = ''POST''"
    and "params request ''title'' = Some t" and "length t \<le> 127"
    and "params request ''text'' = Some x"
  shows "\<exists>j. pyramid_tm (edit c) request d
             = (Returned (Json j),
                d\<lparr>entries := map (\<lambda>r. if id' r = Some k then r\<lparr>title := Some t, text' := Some x\<rparr> else r)
                    (entries d)\<rparr>)
           \<and> json_detail c (e\<lparr>title := Some t, text' := Some x\<rparr>) = Returned j"
proof -
  let ?e = "e\<lparr>title := Some t, text' := Some x\<rparr>"
  obtain j where j: "json_detail c ?e = Returned j"
    by (simp add: json_detail_def render_markdown_def)
  have ok: "column_error ?e = None" using assms(9) by (simp add: column_error_None)
  have "edit c request (start d) = (Returned (Json j), (start d)\<lparr>dirty := [?e]\<rparr>)"
    using assms(5-8,10) j
    by (simp add: edit_def by_id_found [OF assms(1-4)] editing_def Let_def dirty_start)
  then have "pyramid_tm (edit c) request d
      = (Returned (Json j),
         d\<lparr>entries := map (\<lambda>r. if id' r = Some k then r\<lparr>title := Some t, text' := Some x\<rparr> else r)
             (entries d)\<rparr>)"
    using ok assms(3) by (simp add: pyramid_tm_def flush_dirty conn_start)
  with j show ?thesis by blast
qed

lemma detail_jinja2_json_detail: "detail_jinja2 c e = json_detail c e"
  by (cases "render_markdown c e") (auto simp: detail_jinja2_def json_detail_def)

lemma view_found:
  assumes "wf_db d" and "e \<in> set (entries d)" and "id' e = Some k" and "int4in c i = Some k"
    and "matchdict request ''id'' = Some i"
  shows "\<exists>page. pyramid_tm (view_entry c) request d = (Returned (DetailPage page), d)
           \<and> json_detail c e = Returned page"
proof -
  from assms(1,2) have "column_error e = None" by (simp add: wf_db_def)
  then obtain raw where "text' e = Some raw" by (auto simp: column_error_None)
  then obtain page where page: "json_detail c e = Returned page"
    by (simp add: json_detail_def render_markdown_def)
  have "detail_entry c request (start d) = (Returned (EntryPage e), start d)"
    using assms(5) by (simp add: detail_entry_def by_id_found [OF assms(1-4)])
  then have "view_entry c request (start d) = (Returned (DetailPage page), start d)"
    using page by (simp add: view_entry_def detail_jinja2_json_detail)
  then have "pyramid_tm (view_entry c) request d = (Returned (DetailPage page), d)"
    by (rule pyramid_tm_start)
  with page show ?thesis by blast
qed

text \<open>
  Every database reached from the empty one satisfies the constraints, and no request
  changes the \<^verbatim>\<open>id\<close> or the \<^verbatim>\<open>created\<close> of a row that exists.
\<close>

lemma read_db: "snd (pyramid_tm (read_entries c) request d) = d"
  by (simp add: pyramid_tm_start read_entries_start)

lemma wf_serve: "wf_db d \<Longrightarrow> wf_db (snd (serve c x d))"
  by (cases x) (simp_all add: wf_add_entry wf_edit read_db detail_db)

lemma wf_run: "wf_db d \<Longrightarrow> wf_db (run c xs d)"
  by (induction xs arbitrary: d) (simp_all add: wf_serve)

lemma wf_reachable: "wf_db (run c xs empty_db)"
  by (rule wf_run [OF wf_empty])

lemma add_entry_rows:
  "entries (snd (pyramid_tm (add_entry c utcnow) request d)) = entries d
   \<or> (\<exists>e. entries (snd (pyramid_tm (add_entry c utcnow) request d)) = entries d @ [e])"
proof (cases "truthy (authenticated_userid request) \<and> method' request = ''POST''")
  case False
  then show ?thesis
    using add_entry_refused [where request = request and c = c and utcnow = utcnow and d = d]
    by (cases "truthy (authenticated_userid request)") auto
next
  case True
  show ?thesis
  proof (cases "column_error (from_params utcnow request)")
    case None
    let ?d1 = "inserted d (from_params utcnow request)"
    from True None have "add_entry c utcnow request (start d) =
       (case json_detail c (hd (order_by_created_desc c (entries ?d1))) of
          Raised x \<Rightarrow> (Raised x, start ?d1)
        | Returned j \<Rightarrow> (Returned (Json j), start ?d1))"
      by (simp add: add_entry_ok)
    then have "snd (pyramid_tm (add_entry c utcnow) request d) = abort d (start ?d1)
        \<or> snd (pyramid_tm (add_entry c utcnow) request d) = ?d1"
      by (cases "json_detail c (hd (order_by_created_desc c (entries ?d1)))")
        (simp_all add: pyramid_tm_def flush_start conn_start)
    then show ?thesis by (auto simp: abort_def inserted_def)
  next
    case (Some x)
    from True add_entry_fails [OF _ _ Some, where c = c and d = d] show ?thesis by auto
  qed
qed

lemma serve_keys:
  "take (length (entries d)) (map (\<lambda>e. (id' e, created e)) (entries (snd (serve c x d))))
     = map (\<lambda>e. (id' e, created e)) (entries d)"
proof (cases x)
  case (Add utcnow request)
  with add_entry_rows [of c utcnow request d] show ?thesis by auto
next
  case (Edit request)
  with edit_keys [of c request d] show ?thesis by simp
next
  case (Home request)
  then show ?thesis by (simp add: read_db)
next
  case (Detail request)
  then show ?thesis by (simp add: detail_db)
qed

lemma run_keys:
  "take (length (entries d)) (map (\<lambda>e. (id' e, created e)) (entries (run c xs d)))
     = map (\<lambda>e. (id' e, created e)) (entries d)"
proof (induction xs arbitrary: d)
  case Nil
  then show ?case by simp
next
  case (Cons x xs)
  let ?key = "\<lambda>e. (id' e, created e)"
  let ?d1 = "snd (serve c x d)"
  have "length (take (length (entries d)) (map ?key (entries ?d1))) = length (map ?key (entries d))"
    by (simp only: serve_keys)
  then have len: "length (entries d) \<le> length (entries ?d1)" by simp
  have "take (length (entries d)) (map ?key (entries (run c xs ?d1)))
      = take (length (entries d)) (take (length (entries ?d1)) (map ?key (entries (run c xs ?d1))))"
    using len by (simp add: min_def)
  also have "\<dots> = take (length (entries d)) (map ?key (entries ?d1))"
    by (simp only: Cons.IH)
  also have "\<dots> = map ?key (entries d)" by (rule serve_keys)
  finally show ?case by simp
qed

section \<open>Privileged views without an identity\<close>

text \<open>
  Claim C1. A request that carries no authenticated identity gets
  \<^verbatim>\<open>HTTPForbidden\<close> (status 403) from \<^verbatim>\<open>add_entry\<close> and from \<^verbatim>\<open>edit\<close>, whatever its
  method, its \<^verbatim>\<open>title\<close>, \<^verbatim>\<open>text\<close> and \<^verbatim>\<open>id\<close> parameters and the clock are, and the
  database after the request is the database before it.
\<close>

theorem forbidden_without_identity:
  assumes "authenticated_userid request = None"
  shows "pyramid_tm (add_entry c utcnow) request d = (Returned HTTPForbidden, d)
       \<and> pyramid_tm (edit c) request d = (Returned HTTPForbidden, d)
       \<and> http_status (fst (pyramid_tm (add_entry c utcnow) request d)) = 403
       \<and> http_status (fst (pyramid_tm (edit c) request d)) = 403"
  using assms by (simp add: pyramid_tm_start add_entry_def edit_def truthy_def)

theorem forbidden_without_identity_witness:
  "pyramid_tm (add_entry sample_deps 30) (sample_request ''POST'' None hello []) sample_db
     = (Returned HTTPForbidden, sample_db)
   \<and> pyramid_tm (edit sample_deps) (sample_request ''POST'' None ((''id'', ''1'') # hello) []) sample_db
     = (Returned HTTPForbidden, sample_db)
   \<and> pyramid_tm (edit sample_deps) (sample_request ''GET'' None [(''id'', ''1'')] []) sample_db
     = (Returned HTTPForbidden, sample_db)"
  using forbidden_without_identity [of "sample_request ''POST'' None hello []" sample_deps 30 sample_db]
    forbidden_without_identity [of "sample_request ''POST'' None ((''id'', ''1'') # hello) []" sample_deps 30 sample_db]
    forbidden_without_identity [of "sample_request ''GET'' None [(''id'', ''1'')] []" sample_deps 30 sample_db]
  by (simp add: sample_request_def)

section \<open>Login\<close>

text \<open>
  Claim C2. \<^verbatim>\<open>do_login\<close> raises \<^verbatim>\<open>ValueError\<close> when the username or the password
  is missing or empty. Otherwise it returns, without raising, a value that is true
  exactly when the username is the configured one and the password passes the check
  against the configured hash. For a wrong username the value is Python's
  \<^verbatim>\<open>None\<close>, which \<^verbatim>\<open>login\<close> reads as false in \<^verbatim>\<open>if authenticated\<close>; for a wrong
  password it is the \<^verbatim>\<open>False\<close> of the check. \<^verbatim>\<open>login\<close> itself never raises, and it
  redirects exactly for a \<^verbatim>\<open>POST\<close> with the configured pair.
\<close>

theorem do_login_contract:
  "((\<not> truthy (params request ''username'') \<or> \<not> truthy (params request ''password''))
       \<longrightarrow> do_login c request = Raised (ValueError ''both username and password are required''))
   \<and> (truthy (params request ''username'') \<and> truthy (params request ''password'')
       \<longrightarrow> (\<exists>v. do_login c request = Returned v
             \<and> is_true v =
                 (params request ''username'' = Some (get_default (settings request) ''auth.username'' '''')
                  \<and> check c (get_default (settings request) ''auth.password'' '''') (the (params request ''password'')))))
   \<and> (truthy (params request ''username'') \<and> truthy (params request ''password'')
        \<and> params request ''username'' \<noteq> Some (get_default (settings request) ''auth.username'' '''')
       \<longrightarrow> do_login c request = Returned PyNone)
   \<and> (\<exists>r. login c request = Returned r)
   \<and> ((\<exists>userid. login c request = Returned (HTTPFound ''home'' userid))
        \<longleftrightarrow> method' request = ''POST''
            \<and> truthy (params request ''username'') \<and> truthy (params request ''password'')
            \<and> params request ''username'' = Some (get_default (settings request) ''auth.username'' '''')
            \<and> check c (get_default (settings request) ''auth.password'' '''') (the (params request ''password'')))"
proof -
  have a: "(\<not> truthy (params request ''username'') \<or> \<not> truthy (params request ''password''))
       \<longrightarrow> do_login c request = Raised (ValueError ''both username and password are required'')"
    by (auto simp: do_login_def Let_def)
  have b: "truthy (params request ''username'') \<and> truthy (params request ''password'')
       \<longrightarrow> (\<exists>v. do_login c request = Returned v
             \<and> is_true v =
                 (params request ''username'' = Some (get_default (settings request) ''auth.username'' '''')
                  \<and> check c (get_default (settings request) ''auth.password'' '''') (the (params request ''password''))))"
    by (auto simp: do_login_def Let_def truthy_def split: option.splits)
  have c: "truthy (params request ''username'') \<and> truthy (params request ''password'')
        \<and> params request ''username'' \<noteq> Some (get_default (settings request) ''auth.username'' '''')
       \<longrightarrow> do_login c request = Returned PyNone"
    by (auto simp: do_login_def Let_def truthy_def split: option.splits)
  have d: "\<exists>r. login c request = Returned r"
    by (auto simp: login_def do_login_def Let_def)
  have e: "(\<exists>userid. login c request = Returned (HTTPFound ''home'' userid))
        \<longleftrightarrow> method' request = ''POST''
            \<and> truthy (params request ''username'') \<and> truthy (params request ''password'')
            \<and> params request ''username'' = Some (get_default (settings request) ''auth.username'' '''')
            \<and> check c (get_default (settings request) ''auth.password'' '''') (the (params request ''password''))"
    by (auto simp: login_def do_login_def Let_def truthy_def split: option.splits)
  from a b c d e show ?thesis by blast
qed

theorem do_login_contract_witness:
  "(\<exists>v. do_login sample_deps
          (sample_request ''POST'' None [(''username'', ''admin''), (''password'', ''secret'')] [])
          = Returned v \<and> is_true v)
   \<and> (\<exists>v. do_login sample_deps
          (sample_request ''POST'' None [(''username'', ''admin''), (''password'', ''guess'')] [])
          = Returned v \<and> \<not> is_true v)
   \<and> do_login sample_deps
          (sample_request ''POST'' None [(''username'', ''bob''), (''password'', ''secret'')] [])
        = Returned PyNone
   \<and> do_login sample_deps (sample_request ''POST'' None [(''username'', ''admin'')] [])
        = Raised (ValueError ''both username and password are required'')
   \<and> do_login sample_deps
          (sample_request ''POST'' None [(''username'', ''''), (''password'', ''secret'')] [])
        = Raised (ValueError ''both username and password are required'')"
  using
    do_login_contract [of "sample_request ''POST'' None [(''username'', ''admin''), (''password'', ''secret'')] []" sample_deps]
    do_login_contract [of "sample_request ''POST'' None [(''username'', ''admin''), (''password'', ''guess'')] []" sample_deps]
    do_login_contract [of "sample_request ''POST'' None [(''username'', ''bob''), (''password'', ''secret'')] []" sample_deps]
    do_login_contract [of "sample_request ''POST'' None [(''username'', ''admin'')] []" sample_deps]
    do_login_contract [of "sample_request ''POST'' None [(''username'', ''''), (''password'', ''secret'')] []" sample_deps]
  by (simp add: sample_request_def sample_settings_def sample_deps_def truthy_def get_default_def)

section \<open>Creating an entry and viewing it\<close>

text \<open>
  Claim C3, as the program has it. With an identity, a \<^verbatim>\<open>POST\<close> to \<^verbatim>\<open>/add\<close> whose
  title (at most 127 characters) and text are both present appends one row, with the
  next id of the sequence, which is the id of no earlier row. When the creation instant
  is strictly later than the \<^verbatim>\<open>created\<close> of every stored entry, the response is the
  detail representation of that row: it reports the new id, the submitted title and
  the markdown renderer applied to the submitted text; and \<^verbatim>\<open>view_entry\<close> for the id
  the response reports returns the same: that id, the submitted title, and as text the
  markdown renderer applied to the submitted text.
\<close>

theorem create_then_view:
  assumes "wf_db d" and "truthy (authenticated_userid request)" and "method' request = ''POST''"
    and "params request ''title'' = Some t" and "length t \<le> 127"
    and "params request ''text'' = Some x"
    and "\<forall>r \<in> set (entries d). created r < utcnow"
  shows "\<exists>j d1 e. pyramid_tm (add_entry c utcnow) request d = (Returned (Json j), d1)
           \<and> e = \<lparr>id' = Some (entries_id_seq d + 1), title = Some t, text' = Some x, created = utcnow\<rparr>
           \<and> d1 = \<lparr>entries = entries d @ [e], entries_id_seq = entries_id_seq d + 1\<rparr>
           \<and> id' e \<notin> id' ` set (entries d)
           \<and> j ''id'' = Some (PyInt (entries_id_seq d + 1))
           \<and> j ''title'' = Some (PyStr t)
           \<and> j ''text'' = Some (PyStr (markdown c x [''codehilite'', ''fenced_code'']))
           \<and> (\<forall>k i view. j ''id'' = Some (PyInt k) \<and> int4in c i = Some k
                   \<and> matchdict view ''id'' = Some i \<longrightarrow>
                 (\<exists>page. pyramid_tm (view_entry c) view d1 = (Returned (DetailPage page), d1)
                    \<and> page ''id'' = Some (PyInt k)
                    \<and> page ''title'' = Some (PyStr t)
                    \<and> page ''text'' = Some (PyStr (markdown c x [''codehilite'', ''fenced_code'']))))"
proof -
  let ?new = "from_params utcnow request"
  let ?k = "entries_id_seq d + 1"
  let ?e = "\<lparr>id' = Some ?k, title = Some t, text' = Some x, created = utcnow\<rparr>"
  let ?d1 = "\<lparr>entries = entries d @ [?e], entries_id_seq = ?k\<rparr>"
  let ?html = "markdown c x [''codehilite'', ''fenced_code'']"
  have ok: "column_error ?new = None"
    using assms(4-6) by (simp add: column_error_None from_params_def)
  have d1: "inserted d ?new = ?d1"
    using assms(4,6) by (simp add: inserted_def from_params_def)
  have "\<forall>r \<in> set (entries d). created r < created ?e" using assms(7) by simp
  then have top: "hd (order_by_created_desc c (entries ?d1)) = ?e"
    by (simp add: order_snoc hd_newest)
  from add_entry_commits [OF assms(1-3) ok, of c] obtain j
    where j: "pyramid_tm (add_entry c utcnow) request d = (Returned (Json j), ?d1)"
      and detail: "json_detail c ?e = Returned j"
    unfolding d1 top by blast
  from json_detail_fields [OF detail]
  have fields: "j ''id'' = Some (PyInt ?k)" "j ''title'' = Some (PyStr t)"
    "j ''text'' = Some (PyStr ?html)"
    by (simp_all add: py_int_def py_str_def)
  have wf1: "wf_db ?d1" using wf_inserted [OF assms(1) ok] by (simp only: d1)
  have mem: "?e \<in> set (entries ?d1)" by simp
  have fresh: "id' ?e \<notin> id' ` set (entries d)"
    using assms(1) by (force simp: wf_db_def)
  have view: "\<forall>k i view. j ''id'' = Some (PyInt k) \<and> int4in c i = Some k
        \<and> matchdict view ''id'' = Some i \<longrightarrow>
      (\<exists>page. pyramid_tm (view_entry c) view ?d1 = (Returned (DetailPage page), ?d1)
         \<and> page ''id'' = Some (PyInt k) \<and> page ''title'' = Some (PyStr t)
         \<and> page ''text'' = Some (PyStr ?html))"
  proof (intro allI impI)
    fix k i and view :: request
    assume a: "j ''id'' = Some (PyInt k) \<and> int4in c i = Some k \<and> matchdict view ''id'' = Some i"
    with fields(1) have k: "k = ?k" by simp
    from a k have "int4in c i = Some ?k" "matchdict view ''id'' = Some i" by simp_all
    from view_found [OF wf1 mem _ this] obtain page
      where "pyramid_tm (view_entry c) view ?d1 = (Returned (DetailPage page), ?d1)"
        and "json_detail c ?e = Returned page"
      by auto
    with detail fields k
    show "\<exists>page. pyramid_tm (view_entry c) view ?d1 = (Returned (DetailPage page), ?d1)
         \<and> page ''id'' = Some (PyInt k) \<and> page ''title'' = Some (PyStr t)
         \<and> page ''text'' = Some (PyStr ?html)"
      by auto
  qed
  from j fields view fresh show ?thesis by simp
qed

theorem create_then_view_witness:
  "wf_db sample_db
   \<and> truthy (authenticated_userid (sample_request ''POST'' admin hello []))
   \<and> response_field (fst (pyramid_tm (add_entry sample_deps 30)
        (sample_request ''POST'' admin hello []) sample_db)) ''id'' = Some (PyInt 3)
   \<and> response_field (fst (pyramid_tm (view_entry sample_deps)
        (sample_request ''GET'' None [] [(''id'', ''3'')])
        (snd (pyramid_tm (add_entry sample_deps 30) (sample_request ''POST'' admin hello []) sample_db))))
        ''title'' = Some (PyStr ''Hello there'')
   \<and> response_field (fst (pyramid_tm (view_entry sample_deps)
        (sample_request ''GET'' None [] [(''id'', ''3'')])
        (snd (pyramid_tm (add_entry sample_deps 30) (sample_request ''POST'' admin hello []) sample_db))))
        ''text'' = Some (PyStr ''<p>##This is a post</p>'')"
proof -
  let ?r = "sample_request ''POST'' admin hello []"
  let ?v = "sample_request ''GET'' None [] [(''id'', ''3'')]"
  have h: "truthy (authenticated_userid ?r)" "method' ?r = ''POST''"
    "params ?r ''title'' = Some ''Hello there''" "length ''Hello there'' \<le> 127"
    "params ?r ''text'' = Some ''##This is a post''"
    by (simp_all add: sample_request_def admin_def truthy_def hello_def)
  have n: "\<forall>r \<in> set (entries sample_db). created r < 30"
    by (simp add: sample_db_def)
  have v: "int4in sample_deps ''3'' = Some 3" "matchdict ?v ''id'' = Some ''3''"
    by (simp_all add: sample_deps_def sample_request_def)
  have m: "markdown sample_deps ''##This is a post'' [''codehilite'', ''fenced_code'']
      = ''<p>##This is a post</p>''"
    by (simp add: sample_deps_def)
  have s: "entries_id_seq sample_db + 1 = 3" by (simp add: sample_db_def)
  from create_then_view [OF wf_sample h n, of sample_deps] obtain j d1
    where j: "pyramid_tm (add_entry sample_deps 30) ?r sample_db = (Returned (Json j), d1)"
      "j ''id'' = Some (PyInt 3)"
      and view: "\<forall>k i view. j ''id'' = Some (PyInt k) \<and> int4in sample_deps i = Some k
          \<and> matchdict view ''id'' = Some i \<longrightarrow>
        (\<exists>page. pyramid_tm (view_entry sample_deps) view d1 = (Returned (DetailPage page), d1)
           \<and> page ''id'' = Some (PyInt k) \<and> page ''title'' = Some (PyStr ''Hello there'')
           \<and> page ''text'' = Some (PyStr ''<p>##This is a post</p>''))"
    unfolding s m by blast
  from view j(2) v obtain page
    where "pyramid_tm (view_entry sample_deps) ?v d1 = (Returned (DetailPage page), d1)"
      "page ''title'' = Some (PyStr ''Hello there'')"
      "page ''text'' = Some (PyStr ''<p>##This is a post</p>'')"
    by blast
  with j h(1) wf_sample show ?thesis by simp
qed

text \<open>
  Without the condition on the creation instant the claim fails. On the sample
  database, whose newest entry has \<^verbatim>\<open>created = 20\<close>, an entry created at 20 by a
  database that lists the older of two equal rows first, and an entry created at 15 by
  any database, both get the response of entry 2; viewing the id the response reports
  shows the title \<^verbatim>\<open>second\<close>, not the submitted \<^verbatim>\<open>Hello there\<close>.
\<close>

theorem create_reports_another_entry:
  "response_field (fst (pyramid_tm (add_entry oldest_first 20)
      (sample_request ''POST'' admin hello []) sample_db)) ''id'' = Some (PyInt 2)
   \<and> response_field (fst (pyramid_tm (view_entry oldest_first)
        (sample_request ''GET'' None [] [(''id'', ''2'')])
        (snd (pyramid_tm (add_entry oldest_first 20) (sample_request ''POST'' admin hello []) sample_db))))
        ''title'' = Some (PyStr ''second'')
   \<and> response_field (fst (pyramid_tm (view_entry oldest_first)
        (sample_request ''GET'' None [] [(''id'', ''2'')])
        (snd (pyramid_tm (add_entry oldest_first 20) (sample_request ''POST'' admin hello []) sample_db))))
        ''title'' \<noteq> Some (PyStr ''Hello there'')
   \<and> response_field (fst (pyramid_tm (add_entry sample_deps 15)
      (sample_request ''POST'' admin hello []) sample_db)) ''id'' = Some (PyInt 2)
   \<and> response_field (fst (pyramid_tm (view_entry sample_deps)
        (sample_request ''GET'' None [] [(''id'', ''2'')])
        (snd (pyramid_tm (add_entry sample_deps 15) (sample_request ''POST'' admin hello []) sample_db))))
        ''title'' = Some (PyStr ''second'')"
  by (simp add: pyramid_tm_def add_entry_def view_entry_def detail_entry_def Entry_from_request_def
      Entry_desc_new_def Entry_by_id_def flush_def start_def abort_def Let_def
      json_detail_def detail_jinja2_def render_markdown_def
      order_by_created_desc_def before_def column_error_def truthy_def py_str_def py_int_def
      oldest_first_def sample_deps_def sample_request_def sample_db_def admin_def hello_def)

section \<open>Editing keeps id and creation time\<close>

text \<open>
  Claim C4. After any number of requests to \<^verbatim>\<open>/edit\<close>, the table has the same rows
  with the same \<^verbatim>\<open>id\<close> and \<^verbatim>\<open>created\<close>, in the same order. One request leaves each
  row as it was or replaces its \<^verbatim>\<open>title\<close> and \<^verbatim>\<open>text\<close> by the request's, and nothing
  else; and an authenticated \<^verbatim>\<open>POST\<close> for an existing id with a title (at most 127
  characters) and a text does overwrite these two columns of that row and of no other.
\<close>

theorem edit_keeps_id_and_created:
  "map (\<lambda>e. (id' e, created e)) (entries (run_edits c requests d))
     = map (\<lambda>e. (id' e, created e)) (entries d)
   \<and> list_all2 (\<lambda>r r'. r' = r \<or> r' = r\<lparr>title := params request ''title'', text' := params request ''text''\<rparr>)
       (entries d) (entries (snd (pyramid_tm (edit c) request d)))
   \<and> (wf_db d \<and> e \<in> set (entries d) \<and> id' e = Some k \<and> int4in c i = Some k
       \<and> truthy (authenticated_userid request) \<and> params request ''id'' = Some i
       \<and> method' request = ''POST''
       \<and> params request ''title'' = Some t \<and> length t \<le> 127 \<and> params request ''text'' = Some x
      \<longrightarrow> entries (snd (pyramid_tm (edit c) request d))
            = map (\<lambda>r. if id' r = Some k then r\<lparr>title := Some t, text' := Some x\<rparr> else r) (entries d))"
proof -
  have "entries (snd (pyramid_tm (edit c) request d))
            = map (\<lambda>r. if id' r = Some k then r\<lparr>title := Some t, text' := Some x\<rparr> else r) (entries d)"
    if "wf_db d" "e \<in> set (entries d)" "id' e = Some k" "int4in c i = Some k"
       "truthy (authenticated_userid request)" "params request ''id'' = Some i"
       "method' request = ''POST''"
       "params request ''title'' = Some t" "length t \<le> 127" "params request ''text'' = Some x"
    using edit_post_ok [OF that] by auto
  then show ?thesis
    using run_edits_keys [of c requests d] edit_rows by blast
qed

theorem edit_keeps_id_and_created_witness:
  "wf_db sample_db \<and> sample_entry \<in> set (entries sample_db)
   \<and> entries (snd (pyramid_tm (edit sample_deps)
        (sample_request ''POST'' admin ((''id'', ''1'') # hello) []) sample_db))
      = [\<lparr>id' = Some 1, title = Some ''Hello there'', text' = Some ''##This is a post'', created = 10\<rparr>,
         \<lparr>id' = Some 2, title = Some ''second'', text' = Some ''two'', created = 20\<rparr>]
   \<and> map (\<lambda>e. (id' e, created e)) (entries (run_edits sample_deps
        [sample_request ''POST'' admin ((''id'', ''1'') # hello) [],
         sample_request ''POST'' admin [(''id'', ''2''), (''title'', ''x'')] []] sample_db))
      = [(Some 1, 10), (Some 2, 20)]"
proof -
  let ?r = "sample_request ''POST'' admin ((''id'', ''1'') # hello) []"
  have h: "sample_entry \<in> set (entries sample_db)" "id' sample_entry = Some 1"
    "int4in sample_deps ''1'' = Some 1" "truthy (authenticated_userid ?r)"
    "params ?r ''id'' = Some ''1''" "method' ?r = ''POST''"
    "params ?r ''title'' = Some ''Hello there''" "length ''Hello there'' \<le> 127"
    "params ?r ''text'' = Some ''##This is a post''"
    by (simp_all add: sample_int4in sample_entry_def sample_db_def sample_request_def
        admin_def truthy_def hello_def)
  from edit_keeps_id_and_created [of sample_deps "[?r, sample_request ''POST'' admin [(''id'', ''2''), (''title'', ''x'')] []]"
      sample_db ?r sample_entry 1 "''1''" "''Hello there''" "''##This is a post''"] h wf_sample
  show ?thesis by (simp add: sample_db_def)
qed

section \<open>Unknown ids\<close>

text \<open>
  Claim C5, as the program has it. For an id that the database reads as an integer and
  that no stored entry has, \<^verbatim>\<open>Entry.by_id\<close> raises \<^verbatim>\<open>NoResultFound\<close>.
  \<^verbatim>\<open>detail_entry\<close>, and \<^verbatim>\<open>edit\<close> when an identity is present (for \<^verbatim>\<open>GET\<close> and for
  \<^verbatim>\<open>POST\<close>), do not catch it: the request ends with this exception, which the server
  answers with status 500, and the database is unchanged.
\<close>

theorem unknown_id_raises_NoResultFound:
  assumes "int4in c i = Some k" and "Some k \<notin> id' ` set (entries d)"
  shows "(matchdict request ''id'' = Some i \<longrightarrow>
            pyramid_tm (detail_entry c) request d = (Raised NoResultFound, d))
       \<and> (truthy (authenticated_userid request) \<and> params request ''id'' = Some i \<longrightarrow>
            pyramid_tm (edit c) request d = (Raised NoResultFound, d))
       \<and> http_status (Raised NoResultFound) = 500"
  by (simp add: pyramid_tm_raised detail_entry_def edit_def by_id_absent [OF assms])

theorem unknown_id_raises_NoResultFound_witness:
  "int4in sample_deps ''7'' = Some 7 \<and> Some 7 \<notin> id' ` set (entries sample_db)
   \<and> pyramid_tm (detail_entry sample_deps) (sample_request ''GET'' None [] [(''id'', ''7'')]) sample_db
       = (Raised NoResultFound, sample_db)
   \<and> pyramid_tm (edit sample_deps) (sample_request ''GET'' admin [(''id'', ''7'')] []) sample_db
       = (Raised NoResultFound, sample_db)
   \<and> pyramid_tm (edit sample_deps) (sample_request ''POST'' admin ((''id'', ''7'') # hello) []) sample_db
       = (Raised NoResultFound, sample_db)"
proof -
  have h: "int4in sample_deps ''7'' = Some 7" "Some 7 \<notin> id' ` set (entries sample_db)"
    by (simp_all add: sample_int4in sample_db_def)
  from unknown_id_raises_NoResultFound [OF h, of "sample_request ''GET'' None [] [(''id'', ''7'')]"]
    unknown_id_raises_NoResultFound [OF h, of "sample_request ''GET'' admin [(''id'', ''7'')] []"]
    unknown_id_raises_NoResultFound [OF h, of "sample_request ''POST'' admin ((''id'', ''7'') # hello) []"]
    h
  show ?thesis by (simp add: sample_request_def admin_def truthy_def)
qed

text \<open>
  The response to an unknown id is therefore not a 404: on the sample database,
  \<^verbatim>\<open>/detail/7\<close> ends with the uncaught \<^verbatim>\<open>NoResultFound\<close>.
\<close>

theorem unknown_id_is_not_404:
  "fst (pyramid_tm (detail_entry sample_deps) (sample_request ''GET'' None [] [(''id'', ''7'')]) sample_db)
     = Raised NoResultFound
   \<and> http_status (fst (pyramid_tm (detail_entry sample_deps)
        (sample_request ''GET'' None [] [(''id'', ''7'')]) sample_db)) \<noteq> 404"
  by (simp add: pyramid_tm_def detail_entry_def by_id_start sample_request_def sample_deps_def
      sample_db_def abort_def)

section \<open>Creating an entry with a missing field\<close>

text \<open>
  Claim C6. With an identity, a \<^verbatim>\<open>POST\<close> to \<^verbatim>\<open>/add\<close> that lacks the title or the
  text is not refused by the view: \<^verbatim>\<open>Entry.from_request\<close> returns normally. The
  failure is the database's, an \<^verbatim>\<open>IntegrityError\<close> (or a \<^verbatim>\<open>DataError\<close>, when the text
  is missing and the title is too long) at the flush; it leaves the request as an
  exception, status 500, and the table \<^verbatim>\<open>entries\<close> after the request is the table
  before it.
\<close>

theorem missing_field_fails_in_store:
  assumes "truthy (authenticated_userid request)" and "method' request = ''POST''"
    and "params request ''title'' = None \<or> params request ''text'' = None"
  shows "\<exists>x d'. pyramid_tm (add_entry c utcnow) request d = (Raised x, d')
           \<and> (x = IntegrityError \<or> x = DataError)
           \<and> http_status (Raised x) = 500
           \<and> entries d' = entries d
           \<and> fst (Entry_from_request utcnow request (start d)) = Returned ()"
proof -
  from assms(3) have "column_error (from_params utcnow request) \<noteq> None"
    by (auto simp: column_error_None from_params_def)
  then obtain x where x: "column_error (from_params utcnow request) = Some x"
    and "x = IntegrityError \<or> x = DataError"
    using column_error_cases [of "from_params utcnow request"] by auto
  then show ?thesis
    using add_entry_fails [OF assms(1,2) x, of c d] by (simp add: from_request_start)
qed

theorem missing_field_fails_in_store_witness:
  "truthy (authenticated_userid (sample_request ''POST'' admin [(''title'', ''Hello there'')] []))
   \<and> params (sample_request ''POST'' admin [(''title'', ''Hello there'')] []) ''text'' = None
   \<and> (\<exists>x d'. pyramid_tm (add_entry sample_deps 30)
          (sample_request ''POST'' admin [(''title'', ''Hello there'')] []) sample_db = (Raised x, d')
        \<and> (x = IntegrityError \<or> x = DataError)
        \<and> http_status (Raised x) = 500
        \<and> entries d' = entries sample_db)"
proof -
  let ?r = "sample_request ''POST'' admin [(''title'', ''Hello there'')] []"
  have h: "truthy (authenticated_userid ?r)" "method' ?r = ''POST''"
    "params ?r ''title'' = None \<or> params ?r ''text'' = None"
    by (simp_all add: sample_request_def admin_def truthy_def)
  from missing_field_fails_in_store [OF h, of sample_deps 30 sample_db] h(1) show ?thesis
    by (auto simp: sample_request_def)
qed

section \<open>The list of entries\<close>

text \<open>
  Claim C7. \<^verbatim>\<open>read_entries\<close> answers every request, whatever its identity, leaves
  the database as it is, and returns the stored entries (each once) in an order in
  which \<^verbatim>\<open>created\<close> never increases; so no entry is newer than the first one.
\<close>

theorem read_entries_newest_first:
  "pyramid_tm (read_entries c) request d
     = (Returned (EntriesPage (order_by_created_desc c (entries d))), d)
   \<and> sorted_wrt (\<lambda>a b. created b \<le> created a) (order_by_created_desc c (entries d))
   \<and> mset (order_by_created_desc c (entries d)) = mset (entries d)
   \<and> (\<forall>e \<in> set (entries d). created e \<le> created (hd (order_by_created_desc c (entries d))))"
  using hd_greatest [OF sorted_order_by, of _ c "entries d"]
  by (simp add: pyramid_tm_start read_entries_start sorted_order_by mset_order_by set_order_by)

theorem read_entries_newest_first_witness:
  "pyramid_tm (read_entries sample_deps) (sample_request ''GET'' None [] []) sample_db
     = (Returned (EntriesPage
         [\<lparr>id' = Some 2, title = Some ''second'', text' = Some ''two'', created = 20\<rparr>,
          \<lparr>id' = Some 1, title = Some ''first'', text' = Some ''*one*'', created = 10\<rparr>]), sample_db)"
  using read_entries_newest_first [of sample_deps "sample_request ''GET'' None [] []" sample_db]
  by (simp add: sample_db_def order_by_created_desc_def before_def)

section \<open>The two representations\<close>

text \<open>
  Claim C8. For a stored entry, \<^verbatim>\<open>json_edit\<close> carries the raw text and
  \<^verbatim>\<open>json_detail\<close> the markdown renderer's output for it, and the two dictionaries agree
  on every other key: \<^verbatim>\<open>id\<close>, \<^verbatim>\<open>title\<close> and \<^verbatim>\<open>created\<close>, the latter formatted by
  \<^verbatim>\<open>strftime\<close>. A \<^verbatim>\<open>GET\<close> to \<^verbatim>\<open>/edit\<close> returns \<^verbatim>\<open>json_edit\<close> of the entry;
  \<^verbatim>\<open>detail_entry\<close> hands the entry itself to its template, and \<^verbatim>\<open>view_entry\<close>, the
  view with the template as the spec describes it, returns a page that carries the
  rendered text and agrees with \<^verbatim>\<open>json_edit\<close> on every other key; a \<^verbatim>\<open>POST\<close> to
  \<^verbatim>\<open>/edit\<close> returns \<^verbatim>\<open>json_detail\<close> of the edited entry and \<^verbatim>\<open>add_entry\<close> returns
  \<^verbatim>\<open>json_detail\<close> of a stored entry.
\<close>

theorem edit_and_detail_representations:
  assumes "wf_db d" and "e \<in> set (entries d)" and "id' e = Some k" and "int4in c i = Some k"
  shows "(\<exists>j raw. json_detail c e = Returned j \<and> text' e = Some raw
            \<and> json_edit c e ''text'' = Some (PyStr raw)
            \<and> j ''text'' = Some (PyStr (markdown c raw [''codehilite'', ''fenced_code'']))
            \<and> (\<forall>key. key \<noteq> ''text'' \<longrightarrow> j key = json_edit c e key)
            \<and> j ''id'' = Some (PyInt k) \<and> j ''title'' = Some (py_str (title e))
            \<and> j ''created'' = Some (PyStr (strftime c (created e) ''%b %d, %Y'')))
       \<and> (truthy (authenticated_userid request) \<and> params request ''id'' = Some i
            \<and> method' request = ''GET''
           \<longrightarrow> fst (pyramid_tm (edit c) request d) = Returned (Json (json_edit c e)))
       \<and> (matchdict request ''id'' = Some i
           \<longrightarrow> fst (pyramid_tm (detail_entry c) request d) = Returned (EntryPage e)
               \<and> (\<exists>page raw. pyramid_tm (view_entry c) request d = (Returned (DetailPage page), d)
                      \<and> json_detail c e = Returned page \<and> text' e = Some raw
                      \<and> page ''text'' = Some (PyStr (markdown c raw [''codehilite'', ''fenced_code'']))
                      \<and> (\<forall>key. key \<noteq> ''text'' \<longrightarrow> page key = json_edit c e key)))
       \<and> (truthy (authenticated_userid request) \<and> params request ''id'' = Some i
            \<and> method' request = ''POST''
            \<and> params request ''title'' = Some t \<and> length t \<le> 127 \<and> params request ''text'' = Some x
           \<longrightarrow> (\<exists>j. fst (pyramid_tm (edit c) request d) = Returned (Json j)
                  \<and> json_detail c (e\<lparr>title := Some t, text' := Some x\<rparr>) = Returned j))
       \<and> (truthy (authenticated_userid request) \<and> method' request = ''POST''
            \<and> params request ''title'' = Some t \<and> length t \<le> 127 \<and> params request ''text'' = Some x
           \<longrightarrow> (\<exists>j top. pyramid_tm (add_entry c utcnow) request d = (Returned (Json j), inserted d (from_params utcnow request))
                  \<and> top \<in> set (entries (inserted d (from_params utcnow request)))
                  \<and> json_detail c top = Returned j))"
proof -
  from assms(1,2) have "column_error e = None" by (simp add: wf_db_def)
  then obtain raw where raw: "text' e = Some raw" by (auto simp: column_error_None)
  then obtain j where j: "json_detail c e = Returned j"
    by (simp add: json_detail_def render_markdown_def)
  have same: "\<forall>key. key \<noteq> ''text'' \<longrightarrow> j key = json_edit c e key"
    using j raw by (auto simp: json_detail_def render_markdown_def json_edit_def)
  have part1: "\<exists>j raw. json_detail c e = Returned j \<and> text' e = Some raw
            \<and> json_edit c e ''text'' = Some (PyStr raw)
            \<and> j ''text'' = Some (PyStr (markdown c raw [''codehilite'', ''fenced_code'']))
            \<and> (\<forall>key. key \<noteq> ''text'' \<longrightarrow> j key = json_edit c e key)
            \<and> j ''id'' = Some (PyInt k) \<and> j ''title'' = Some (py_str (title e))
            \<and> j ''created'' = Some (PyStr (strftime c (created e) ''%b %d, %Y''))"
    using json_detail_fields [OF j] raw j same assms(3)
    by (auto simp: json_edit_def py_str_def py_int_def)
  have part2: "fst (pyramid_tm (edit c) request d) = Returned (Json (json_edit c e))"
    if "truthy (authenticated_userid request)" "params request ''id'' = Some i" "method' request = ''GET''"
    using edit_get_ok [OF assms that] by simp
  have part3: "fst (pyramid_tm (detail_entry c) request d) = Returned (EntryPage e)
      \<and> (\<exists>page raw. pyramid_tm (view_entry c) request d = (Returned (DetailPage page), d)
             \<and> json_detail c e = Returned page \<and> text' e = Some raw
             \<and> page ''text'' = Some (PyStr (markdown c raw [''codehilite'', ''fenced_code'']))
             \<and> (\<forall>key. key \<noteq> ''text'' \<longrightarrow> page key = json_edit c e key))"
    if "matchdict request ''id'' = Some i"
  proof -
    from view_found [OF assms that] obtain page
      where page: "pyramid_tm (view_entry c) request d = (Returned (DetailPage page), d)"
        "json_detail c e = Returned page"
      by blast
    from page(2) j have "page = j" by simp
    with page raw same json_detail_fields [OF j]
    have "\<exists>page raw. pyramid_tm (view_entry c) request d = (Returned (DetailPage page), d)
             \<and> json_detail c e = Returned page \<and> text' e = Some raw
             \<and> page ''text'' = Some (PyStr (markdown c raw [''codehilite'', ''fenced_code'']))
             \<and> (\<forall>key. key \<noteq> ''text'' \<longrightarrow> page key = json_edit c e key)"
      by auto
    with detail_found [OF assms that] show ?thesis by simp
  qed
  have part4: "\<exists>j. fst (pyramid_tm (edit c) request d) = Returned (Json j)
                  \<and> json_detail c (e\<lparr>title := Some t, text' := Some x\<rparr>) = Returned j"
    if "truthy (authenticated_userid request)" "params request ''id'' = Some i" "method' request = ''POST''"
       "params request ''title'' = Some t" "length t \<le> 127" "params request ''text'' = Some x"
    using edit_post_ok [OF assms that] by auto
  have part5: "\<exists>j top. pyramid_tm (add_entry c utcnow) request d = (Returned (Json j), inserted d (from_params utcnow request))
                  \<and> top \<in> set (entries (inserted d (from_params utcnow request)))
                  \<and> json_detail c top = Returned j"
    if that: "truthy (authenticated_userid request)" "method' request = ''POST''"
       "params request ''title'' = Some t" "length t \<le> 127" "params request ''text'' = Some x"
  proof -
    let ?d1 = "inserted d (from_params utcnow request)"
    have ok: "column_error (from_params utcnow request) = None"
      using that(3-5) by (simp add: column_error_None from_params_def)
    have "order_by_created_desc c (entries ?d1) \<noteq> []"
      by (simp add: order_by_eq_Nil inserted_def)
    then have "hd (order_by_created_desc c (entries ?d1)) \<in> set (entries ?d1)"
      using set_order_by [of c "entries ?d1"] hd_in_set by blast
    with add_entry_commits [OF assms(1) that(1,2) ok, of c] show ?thesis by blast
  qed
  from part1 part2 part3 part4 part5 show ?thesis by blast
qed

theorem edit_and_detail_representations_witness:
  "wf_db sample_db \<and> sample_entry \<in> set (entries sample_db)
   \<and> fst (pyramid_tm (edit sample_deps) (sample_request ''GET'' admin [(''id'', ''1'')] []) sample_db)
       = Returned (Json (json_edit sample_deps sample_entry))
   \<and> json_edit sample_deps sample_entry ''text'' = Some (PyStr ''*one*'')
   \<and> fst (pyramid_tm (detail_entry sample_deps) (sample_request ''GET'' None [] [(''id'', ''1'')]) sample_db)
       = Returned (EntryPage sample_entry)
   \<and> response_field (fst (pyramid_tm (view_entry sample_deps)
         (sample_request ''GET'' None [] [(''id'', ''1'')]) sample_db)) ''text''
       = Some (PyStr ''<p>*one*</p>'')
   \<and> (\<exists>j. json_detail sample_deps sample_entry = Returned j
         \<and> j ''text'' = Some (PyStr ''<p>*one*</p>'')
         \<and> j ''id'' = json_edit sample_deps sample_entry ''id''
         \<and> j ''title'' = json_edit sample_deps sample_entry ''title''
         \<and> j ''created'' = json_edit sample_deps sample_entry ''created'')
   \<and> (\<exists>j. fst (pyramid_tm (edit sample_deps)
              (sample_request ''POST'' admin ((''id'', ''1'') # hello) []) sample_db) = Returned (Json j)
         \<and> json_detail sample_deps (sample_entry\<lparr>title := Some ''Hello there'', text' := Some ''##This is a post''\<rparr>)
             = Returned j)"
proof -
  let ?get = "sample_request ''GET'' admin [(''id'', ''1'')] []"
  let ?view = "sample_request ''GET'' None [] [(''id'', ''1'')]"
  let ?post = "sample_request ''POST'' admin ((''id'', ''1'') # hello) []"
  have h: "wf_db sample_db" "sample_entry \<in> set (entries sample_db)" "id' sample_entry = Some 1"
    "int4in sample_deps ''1'' = Some 1"
    by (rule wf_sample) (simp_all add: sample_int4in sample_entry_def sample_db_def)
  have g: "truthy (authenticated_userid ?get) \<and> params ?get ''id'' = Some ''1'' \<and> method' ?get = ''GET''"
    by (simp add: sample_request_def admin_def truthy_def)
  have v: "matchdict ?view ''id'' = Some ''1''"
    by (simp add: sample_request_def)
  have p: "truthy (authenticated_userid ?post) \<and> params ?post ''id'' = Some ''1'' \<and> method' ?post = ''POST''
      \<and> params ?post ''title'' = Some ''Hello there'' \<and> length ''Hello there'' \<le> 127
      \<and> params ?post ''text'' = Some ''##This is a post''"
    by (simp add: sample_request_def admin_def truthy_def hello_def)
  have m: "markdown sample_deps ''*one*'' [''codehilite'', ''fenced_code''] = ''<p>*one*</p>''"
    "text' sample_entry = Some ''*one*''"
    by (simp_all add: sample_deps_def sample_entry_def)
  from edit_and_detail_representations [OF h, where request = ?get] g have 1:
    "fst (pyramid_tm (edit sample_deps) ?get sample_db) = Returned (Json (json_edit sample_deps sample_entry))"
    by blast
  from edit_and_detail_representations [OF h, where request = ?view] v obtain page raw'
    where 2: "fst (pyramid_tm (detail_entry sample_deps) ?view sample_db) = Returned (EntryPage sample_entry)"
      and pg: "pyramid_tm (view_entry sample_deps) ?view sample_db = (Returned (DetailPage page), sample_db)"
        "text' sample_entry = Some raw'"
        "page ''text'' = Some (PyStr (markdown sample_deps raw' [''codehilite'', ''fenced_code'']))"
    by blast
  from pg m have 5: "response_field (fst (pyramid_tm (view_entry sample_deps) ?view sample_db)) ''text''
      = Some (PyStr ''<p>*one*</p>'')"
    by simp
  from edit_and_detail_representations [OF h, where request = ?post and t = "''Hello there''"
      and x = "''##This is a post''"] p have 3:
    "\<exists>j. fst (pyramid_tm (edit sample_deps) ?post sample_db) = Returned (Json j)
         \<and> json_detail sample_deps (sample_entry\<lparr>title := Some ''Hello there'', text' := Some ''##This is a post''\<rparr>)
             = Returned j"
    by blast
  from edit_and_detail_representations [OF h, THEN conjunct1] obtain j raw
    where jr: "json_detail sample_deps sample_entry = Returned j" "text' sample_entry = Some raw"
      "json_edit sample_deps sample_entry ''text'' = Some (PyStr raw)"
      "j ''text'' = Some (PyStr (markdown sample_deps raw [''codehilite'', ''fenced_code'']))"
      "\<forall>key. key \<noteq> ''text'' \<longrightarrow> j key = json_edit sample_deps sample_entry key"
    by blast
  from jr(2) m(2) have raw: "raw = ''*one*''" by simp
  from jr(5) have same: "j ''id'' = json_edit sample_deps sample_entry ''id''"
    "j ''title'' = json_edit sample_deps sample_entry ''title''"
    "j ''created'' = json_edit sample_deps sample_entry ''created''"
    by simp_all
  from jr(1,3,4) raw m(1) same have 4:
    "json_edit sample_deps sample_entry ''text'' = Some (PyStr ''*one*'')
     \<and> (\<exists>j. json_detail sample_deps sample_entry = Returned j
         \<and> j ''text'' = Some (PyStr ''<p>*one*</p>'')
         \<and> j ''id'' = json_edit sample_deps sample_entry ''id''
         \<and> j ''title'' = json_edit sample_deps sample_entry ''title''
         \<and> j ''created'' = json_edit sample_deps sample_entry ''created'')"
    by simp
  from 1 2 3 4 5 h(1,2) show ?thesis by blast
qed

text \<open>
  Claim C9 says that the markdown renderer, applied to its own output, returns it
  unchanged. The renderer is the imported function \<^verbatim>\<open>markdown.markdown\<close>, here the
  parameter \<open>markdown\<close>; the program applies it to the stored text only, never to
  its output, and says nothing about what it computes.
\<close>

section \<open>Which entry add-entry returns\<close>

text \<open>
  Claim C10. A successful \<^verbatim>\<open>add_entry\<close> returns \<^verbatim>\<open>json_detail\<close> of a stored entry
  with the greatest \<^verbatim>\<open>created\<close>, which it finds by a query of its own. That this is
  the entry just inserted (the returned \<^verbatim>\<open>id\<close> is the new id) holds whatever the
  database does with equal timestamps exactly when the new \<^verbatim>\<open>created\<close> is strictly
  greater than that of every earlier entry.
\<close>

theorem add_entry_returns_newest:
  assumes "wf_db d" and "truthy (authenticated_userid request)" and "method' request = ''POST''"
    and "params request ''title'' = Some t" and "length t \<le> 127"
    and "params request ''text'' = Some x"
  shows "(\<exists>j top. pyramid_tm (add_entry c utcnow) request d
               = (Returned (Json j), inserted d (from_params utcnow request))
             \<and> top \<in> set (entries (inserted d (from_params utcnow request)))
             \<and> (\<forall>r \<in> set (entries (inserted d (from_params utcnow request))). created r \<le> created top)
             \<and> json_detail c top = Returned j)
       \<and> ((\<forall>ord. \<exists>j. pyramid_tm (add_entry (c\<lparr>tie := ord\<rparr>) utcnow) request d
               = (Returned (Json j), inserted d (from_params utcnow request))
             \<and> j ''id'' = Some (PyInt (entries_id_seq d + 1)))
           \<longleftrightarrow> (\<forall>r \<in> set (entries d). created r < utcnow))"
proof -
  let ?new = "from_params utcnow request"
  let ?d1 = "inserted d ?new"
  let ?k = "entries_id_seq d + 1"
  let ?e = "?new\<lparr>id' := Some ?k\<rparr>"
  have ok: "column_error ?new = None"
    using assms(4-6) by (simp add: column_error_None from_params_def)
  have rows: "entries ?d1 = entries d @ [?e]" by (simp add: inserted_def)
  have commits: "\<exists>j. pyramid_tm (add_entry c' utcnow) request d = (Returned (Json j), ?d1)
      \<and> json_detail c' (hd (foldr (insert_desc c') (entries d) [?e])) = Returned j" for c'
    using add_entry_commits [OF assms(1-3) ok, of c'] by (simp add: rows order_snoc)
  have part1: "\<exists>j top. pyramid_tm (add_entry c utcnow) request d = (Returned (Json j), ?d1)
      \<and> top \<in> set (entries ?d1) \<and> (\<forall>r \<in> set (entries ?d1). created r \<le> created top)
      \<and> json_detail c top = Returned j"
  proof -
    let ?sorted = "order_by_created_desc c (entries ?d1)"
    from commits [of c] obtain j
      where j: "pyramid_tm (add_entry c utcnow) request d = (Returned (Json j), ?d1)"
        "json_detail c (hd ?sorted) = Returned j"
      by (auto simp: rows order_snoc)
    have "?sorted \<noteq> []" by (simp add: order_by_eq_Nil rows)
    then have "hd ?sorted \<in> set (entries ?d1)"
      using set_order_by [of c "entries ?d1"] hd_in_set by blast
    moreover have "\<forall>r \<in> set (entries ?d1). created r \<le> created (hd ?sorted)"
      using hd_greatest [OF sorted_order_by, of _ c "entries ?d1"] by (simp add: set_order_by)
    ultimately show ?thesis using j by blast
  qed
  have part2: "(\<forall>ord. \<exists>j. pyramid_tm (add_entry (c\<lparr>tie := ord\<rparr>) utcnow) request d
        = (Returned (Json j), ?d1) \<and> j ''id'' = Some (PyInt ?k))
      \<longleftrightarrow> (\<forall>r \<in> set (entries d). created r < utcnow)"
  proof
    assume always: "\<forall>ord. \<exists>j. pyramid_tm (add_entry (c\<lparr>tie := ord\<rparr>) utcnow) request d
        = (Returned (Json j), ?d1) \<and> j ''id'' = Some (PyInt ?k)"
    show "\<forall>r \<in> set (entries d). created r < utcnow"
    proof (rule ccontr)
      assume "\<not> (\<forall>r \<in> set (entries d). created r < utcnow)"
      then have ex: "\<exists>r \<in> set (entries d). created ?e \<le> created r"
        by (auto simp: from_params_def not_less)
      let ?c = "c\<lparr>tie := \<lambda>a b. True\<rparr>"
      let ?top = "hd (foldr (insert_desc ?c) (entries d) [?e])"
      have "tie ?c = (\<lambda>a b. True)" by simp
      from hd_older [OF this ex] have top: "?top \<in> set (entries d)" .
      then obtain k' where k': "id' ?top = Some k'" "k' \<le> entries_id_seq d"
        using assms(1) by (auto simp: wf_db_def)
      from always obtain j
        where j: "pyramid_tm (add_entry ?c utcnow) request d = (Returned (Json j), ?d1)"
          "j ''id'' = Some (PyInt ?k)"
        by blast
      from commits [of ?c] j(1) have "json_detail ?c ?top = Returned j" by auto
      from json_detail_fields [OF this] have "j ''id'' = Some (PyInt k')"
        using k'(1) by (simp add: py_int_def)
      with j(2) k'(2) show False by simp
    qed
  next
    assume newest: "\<forall>r \<in> set (entries d). created r < utcnow"
    show "\<forall>ord. \<exists>j. pyramid_tm (add_entry (c\<lparr>tie := ord\<rparr>) utcnow) request d
        = (Returned (Json j), ?d1) \<and> j ''id'' = Some (PyInt ?k)"
    proof
      fix ord
      let ?c = "c\<lparr>tie := ord\<rparr>"
      from newest have "\<forall>r \<in> set (entries d). created r < created ?e"
        by (simp add: from_params_def)
      then have "hd (foldr (insert_desc ?c) (entries d) [?e]) = ?e" by (rule hd_newest)
      with commits [of ?c] obtain j
        where j: "pyramid_tm (add_entry ?c utcnow) request d = (Returned (Json j), ?d1)"
          "json_detail ?c ?e = Returned j"
        by auto
      from json_detail_fields [OF j(2)] have "j ''id'' = Some (PyInt ?k)"
        by (simp add: py_int_def)
      with j(1) show "\<exists>j. pyramid_tm (add_entry ?c utcnow) request d
          = (Returned (Json j), ?d1) \<and> j ''id'' = Some (PyInt ?k)"
        by blast
    qed
  qed
  from part1 part2 show ?thesis by blast
qed

theorem add_entry_returns_newest_witness:
  "wf_db sample_db
   \<and> (\<forall>ord. \<exists>j. pyramid_tm (add_entry (sample_deps\<lparr>tie := ord\<rparr>) 30)
          (sample_request ''POST'' admin hello []) sample_db
          = (Returned (Json j), inserted sample_db (from_params 30 (sample_request ''POST'' admin hello [])))
        \<and> j ''id'' = Some (PyInt 3))
   \<and> \<not> (\<forall>ord. \<exists>j. pyramid_tm (add_entry (sample_deps\<lparr>tie := ord\<rparr>) 20)
          (sample_request ''POST'' admin hello []) sample_db
          = (Returned (Json j), inserted sample_db (from_params 20 (sample_request ''POST'' admin hello [])))
        \<and> j ''id'' = Some (PyInt 3))"
proof -
  let ?r = "sample_request ''POST'' admin hello []"
  have h: "truthy (authenticated_userid ?r)" "method' ?r = ''POST''"
    "params ?r ''title'' = Some ''Hello there''" "length ''Hello there'' \<le> 127"
    "params ?r ''text'' = Some ''##This is a post''"
    by (simp_all add: sample_request_def admin_def truthy_def hello_def)
  have s: "entries_id_seq sample_db + 1 = 3" "(\<forall>r \<in> set (entries sample_db). created r < 30)"
    "\<not> (\<forall>r \<in> set (entries sample_db). created r < 20)"
    by (simp_all add: sample_db_def)
  from add_entry_returns_newest [OF wf_sample h, of sample_deps 30] add_entry_returns_newest [OF wf_sample h, of sample_deps 20] s wf_sample
  show ?thesis by simp
qed

end
